theory Spec2Isabelle
  imports Complex_Main
begin

section \<open>Data model\<close>

text \<open>
  The monitor is a set of React hooks written in TypeScript.  JavaScript numbers are
  modelled as reals (every finite double is a real; rounding of the transcendental
  functions is not modelled).  The viewer language is the union type
  \<^verbatim>\<open>'en' | 'ru'\<close> of the translation table.
\<close>

text \<open>
  A value read from parsed JSON or from an array: \<^verbatim>\<open>undefined\<close> (the key is
  missing, or the index is beyond the end), \<^verbatim>\<open>null\<close>, or a value of the
  expected type.  The two missing values are falsy alike, but a template string renders
  them differently and arithmetic turns \<^verbatim>\<open>null\<close> into 0 and
  \<^verbatim>\<open>undefined\<close> into \<^verbatim>\<open>NaN\<close>.
\<close>

datatype 'a js = Undefined | Null | Val 'a

datatype language = En | Ru

fun lang_code :: "language \<Rightarrow> string" where
  "lang_code En = ''en''"
| "lang_code Ru = ''ru''"

text \<open>
  The \<^verbatim>\<open>Earthquake\<close> interface of useEarthquakes.ts.  Latitude and longitude are
  read from the coordinates array without a default, so they are \<^verbatim>\<open>undefined\<close>
  when the array is too short and \<^verbatim>\<open>null\<close> when the entry is.
\<close>

record earthquake =
  eq_id :: string
  magnitude :: real
  place :: string
  time :: real
  depth :: real
  latitude :: "real js"
  longitude :: "real js"
  url :: string

datatype notification_permission = Default | Granted | Denied

section \<open>useNotifications: change detection and urgent alerts\<close>

text \<open>
  What the hook hands to the platform for one urgent earthquake: the title and body are
  string templates over the viewer language, the magnitude and the depth (rendered with
  \<^verbatim>\<open>toFixed(1)\<close>) and the place (\<^verbatim>\<open>quake.place || 'Unknown location'\<close>);
  the tag is the earthquake identifier and the timestamp its time.
\<close>

record urgent_notification =
  un_language :: language
  un_magnitude :: real
  un_place :: string
  un_depth :: real
  un_tag :: string
  un_timestamp :: real

text \<open>
  The options of a browser notification raised for an operator broadcast: title and body
  as passed to the constructor (a missing field of the record is passed on as it is by
  the Supabase hook), the tag and the \<^verbatim>\<open>requireInteraction\<close> flag.
\<close>

record broadcast_notification =
  bn_title :: "string js"
  bn_body :: "string js"
  bn_tag :: string
  bn_requireInteraction :: bool

text \<open>
  The calls a hook makes on the audio engine, the alert surface and the store, in the
  order in which they are made; \<open>MarkSent\<close> carries the identifier of the record.
\<close>

datatype effect =
    ActivateAudioContext
  | PlayAlertSound
  | UrgentNotification urgent_notification
  | BroadcastNotification broadcast_notification
  | MarkSent "string js"

record notifications_state =
  previousEarthquakesRef :: "string set"
  notificationPermissionRef :: "notification_permission option"

definition currentIds :: "earthquake list \<Rightarrow> string set" where
  "currentIds earthquakes = set (map eq_id earthquakes)"

definition newEarthquakes :: "string set \<Rightarrow> earthquake list \<Rightarrow> earthquake list" where
  "newEarthquakes previous earthquakes = filter (\<lambda>q. eq_id q \<notin> previous) earthquakes"

definition notifyQuake :: "language \<Rightarrow> earthquake \<Rightarrow> effect list" where
  "notifyQuake lang quake =
     (if magnitude quake > 4.5 then
        [PlayAlertSound,
         UrgentNotification
           \<lparr>un_language = lang, un_magnitude = magnitude quake,
            un_place = (if place quake = [] then ''Unknown location'' else place quake),
            un_depth = depth quake, un_tag = eq_id quake, un_timestamp = time quake\<rparr>]
      else [])"

text \<open>
  The body of the second effect of \<^verbatim>\<open>useNotifications\<close>, run by React after every
  render in which the earthquake list, the enabled flag or the language changed.  The
  result is the state of the two refs afterwards, the local \<^verbatim>\<open>newEarthquakes\<close> and
  the calls made.
\<close>

definition skipsPoll :: "bool \<Rightarrow> earthquake list \<Rightarrow> notifications_state \<Rightarrow> bool" where
  "skipsPoll enabled earthquakes st =
     (\<not> enabled \<or> earthquakes = [] \<or> notificationPermissionRef st \<noteq> Some Granted)"

definition monitorEffect ::
  "bool \<Rightarrow> language \<Rightarrow> earthquake list \<Rightarrow> notifications_state
     \<Rightarrow> notifications_state \<times> earthquake list \<times> effect list" where
  "monitorEffect enabled lang earthquakes st =
     (if skipsPoll enabled earthquakes st then (st, [], [])
      else
        let delta = newEarthquakes (previousEarthquakesRef st) earthquakes
        in (st\<lparr>previousEarthquakesRef := currentIds earthquakes\<rparr>,
            delta,
            concat (map (notifyQuake lang) delta)))"

text \<open>A session: the effect run once for each poll result, in order.\<close>

fun runPolls ::
  "bool \<Rightarrow> language \<Rightarrow> notifications_state \<Rightarrow> earthquake list list
     \<Rightarrow> notifications_state \<times> effect list" where
  "runPolls enabled lang st [] = (st, [])"
| "runPolls enabled lang st (batch # rest) =
     (case monitorEffect enabled lang batch st of
        (st', delta, effs) \<Rightarrow>
          (case runPolls enabled lang st' rest of
             (st'', effs') \<Rightarrow> (st'', effs @ effs')))"

fun isAlertFor :: "string \<Rightarrow> effect \<Rightarrow> bool" where
  "isAlertFor i (UrgentNotification n) = (un_tag n = i)"
| "isAlertFor i _ = False"

definition alertsFor :: "string \<Rightarrow> effect list \<Rightarrow> effect list" where
  "alertsFor i effs = filter (isAlertFor i) effs"

text \<open>Sample data: an urgent event, a minor one, and a session that has the permission.\<close>

definition sampleQuake :: "string \<Rightarrow> real \<Rightarrow> earthquake" where
  "sampleQuake i m =
     \<lparr>eq_id = i, magnitude = m, place = ''Dead Sea'', time = 1700000000000, depth = 10,
      latitude = Val 31.5, longitude = Val 35.5, url = []\<rparr>"

definition grantedState :: "string set \<Rightarrow> notifications_state" where
  "grantedState seen =
     \<lparr>previousEarthquakesRef = seen, notificationPermissionRef = Some Granted\<rparr>"

section \<open>AudioAlertEngine: activateAudioContext and playAlertSound\<close>

text \<open>
  A value thrown by the platform: an \<^verbatim>\<open>Error\<close> object with its message, or any
  other value.
\<close>

datatype thrown = ErrorObj string | NonError

datatype context_state = Suspended | Running | Closed

text \<open>
  The two module-level variables of useNotifications.ts: the shared audio context (with
  its \<^verbatim>\<open>state\<close>), \<open>None\<close> while it is \<^verbatim>\<open>null\<close>, and the resumed flag.
\<close>

record audio_state =
  sharedAudioContext :: "context_state option"
  audioContextResumed :: bool

text \<open>
  A promise of the platform that the code awaits: it resolves, it rejects, or the
  platform never settles it (a browser holds \<^verbatim>\<open>resume()\<close> pending while its
  autoplay policy blocks the context).
\<close>

datatype 'a promise = Resolves 'a | Rejects thrown | Pending

text \<open>
  \<^verbatim>\<open>audio.play()\<close> throws, returns \<^verbatim>\<open>undefined\<close>, or returns a promise.
\<close>

datatype play_outcome = PlayThrows thrown | PlayUndefined | PlayPromise "unit promise"

text \<open>
  What the platform does at each call that can fail: whether \<^verbatim>\<open>window\<close> exists,
  the constructor of the shared context (throws, or yields a context in some state), the
  first and second \<^verbatim>\<open>resume()\<close> (with the state the context is in once the promise
  has resolved), the synthesis and start of a tone on the shared context
  (\<^verbatim>\<open>createBuffer\<close> to \<^verbatim>\<open>source.start(0)\<close>), and for the media-element tier
  the second context with its buffer, the encoding into a WAV file with the object URL
  and the \<^verbatim>\<open>Audio\<close> element, and \<^verbatim>\<open>audio.play()\<close>.
\<close>

record audio_platform =
  windowDefined :: bool
  isMobile :: bool
  newAudioContext :: "thrown + context_state"
  resumeFirst :: "context_state promise"
  resumeSecond :: "context_state promise"
  playTone :: "thrown option"
  newFallbackContext :: "thrown option"
  encodeWav :: "thrown option"
  audioPlay :: play_outcome

text \<open>
  Playback that started: the single 800 Hz beep on the shared context, the same beep
  through an \<^verbatim>\<open>Audio\<close> element, the 440 Hz + 880 Hz alert tone, and a repeat of it
  scheduled with \<^verbatim>\<open>setTimeout\<close> after the given milliseconds.
\<close>

datatype sound = WebAudioBeep | Html5Beep | WebAudioAlert | ScheduledRepeat nat

text \<open>
  How a block of an \<^verbatim>\<open>async\<close> function ends: it completes with a value, it
  throws, or it waits for ever at an \<^verbatim>\<open>await\<close>.  For the function as a whole
  these are its promise resolved, rejected and pending.
\<close>

datatype 'a completion = Returns 'a | Throws thrown | Hangs

type_synonym 'a audio_result = "'a completion \<times> audio_state \<times> sound list"

text \<open>\<^verbatim>\<open>if (!sharedAudioContext) sharedAudioContext = new AudioContext()\<close>\<close>

definition ensureContext :: "audio_platform \<Rightarrow> audio_state \<Rightarrow> thrown + audio_state" where
  "ensureContext p s =
     (case sharedAudioContext s of
        Some c \<Rightarrow> Inr s
      | None \<Rightarrow>
          (case newAudioContext p of
             Inl e \<Rightarrow> Inl e
           | Inr c \<Rightarrow> Inr (s\<lparr>sharedAudioContext := Some c\<rparr>)))"

text \<open>
  \<^verbatim>\<open>activateAudioContext\<close>: everything is inside one \<^verbatim>\<open>try\<close>, whose
  \<^verbatim>\<open>catch\<close> only logs.
\<close>

definition activateAudioContext :: "audio_platform \<Rightarrow> audio_state \<Rightarrow> unit audio_result" where
  "activateAudioContext p s =
     (if \<not> windowDefined p then (Returns (), s, [])
      else
        (case ensureContext p s of
           Inl e \<Rightarrow> (Returns (), s, [])
         | Inr s1 \<Rightarrow>
             if sharedAudioContext s1 = Some Suspended then
               (case resumeFirst p of
                  Pending \<Rightarrow> (Hangs, s1, [])
                | Rejects e \<Rightarrow> (Returns (), s1, [])
                | Resolves c \<Rightarrow>
                    let s2 = s1\<lparr>sharedAudioContext := Some c, audioContextResumed := True\<rparr>
                    in if isMobile p \<and> c = Suspended then
                         (case resumeSecond p of
                            Pending \<Rightarrow> (Hangs, s2, [])
                          | Rejects e \<Rightarrow> (Returns (), s2, [])
                          | Resolves c2 \<Rightarrow> (Returns (), s2\<lparr>sharedAudioContext := Some c2\<rparr>, []))
                       else (Returns (), s2, []))
             else if sharedAudioContext s1 = Some Running then
               (Returns (), s1\<lparr>audioContextResumed := True\<rparr>, [])
             else (Returns (), s1, [])))"

text \<open>
  The beep of the mobile branch, once the context has been looked at; the result is the
  flag \<^verbatim>\<open>webAudioPlayed\<close>.
\<close>

definition mobileTone :: "audio_platform \<Rightarrow> audio_state \<Rightarrow> bool audio_result" where
  "mobileTone p s =
     (if sharedAudioContext s = Some Running then
        (case playTone p of
           Some e \<Rightarrow> (Throws e, s, [])
         | None \<Rightarrow> (Returns True, s, [WebAudioBeep]))
      else (Returns False, s, []))"

text \<open>
  The first inner \<^verbatim>\<open>try\<close> block of the mobile branch.  A rejected resume is
  caught and logged inside it; a pending one keeps the function waiting.
\<close>

definition mobileWebAudio :: "audio_platform \<Rightarrow> audio_state \<Rightarrow> bool audio_result" where
  "mobileWebAudio p s =
     (case ensureContext p s of
        Inl e \<Rightarrow> (Throws e, s, [])
      | Inr s1 \<Rightarrow>
          if sharedAudioContext s1 = Some Suspended then
            (case resumeFirst p of
               Pending \<Rightarrow> (Hangs, s1, [])
             | Rejects e \<Rightarrow> mobileTone p s1
             | Resolves c \<Rightarrow> mobileTone p (s1\<lparr>sharedAudioContext := Some c\<rparr>))
          else mobileTone p s1)"

text \<open>
  The second inner \<^verbatim>\<open>try\<close> block of the mobile branch; the result is the flag
  \<^verbatim>\<open>html5AudioPlayed\<close>.  Where \<^verbatim>\<open>play()\<close> returns \<^verbatim>\<open>undefined\<close> the
  element has been started and the flag stays false.
\<close>

definition html5Audio :: "audio_platform \<Rightarrow> bool completion \<times> sound list" where
  "html5Audio p =
     (case newFallbackContext p of
        Some e \<Rightarrow> (Throws e, [])
      | None \<Rightarrow>
          (case encodeWav p of
             Some e \<Rightarrow> (Throws e, [])
           | None \<Rightarrow>
               (case audioPlay p of
                  PlayThrows e \<Rightarrow> (Throws e, [])
                | PlayUndefined \<Rightarrow> (Returns False, [Html5Beep])
                | PlayPromise Pending \<Rightarrow> (Hangs, [])
                | PlayPromise (Rejects e) \<Rightarrow> (Throws e, [])
                | PlayPromise (Resolves u) \<Rightarrow> (Returns True, [Html5Beep]))))"

text \<open>
  The media-element tier as the mobile branch runs it: its \<^verbatim>\<open>catch\<close> logs, and
  the branch returns.
\<close>

definition mobileFallback :: "audio_platform \<Rightarrow> audio_state \<Rightarrow> sound list \<Rightarrow> unit audio_result" where
  "mobileFallback p s snds =
     (case html5Audio p of
        (Hangs, snds2) \<Rightarrow> (Hangs, s, snds @ snds2)
      | (Throws e, snds2) \<Rightarrow> (Returns (), s, snds @ snds2)
      | (Returns b, snds2) \<Rightarrow> (Returns (), s, snds @ snds2))"

text \<open>The mobile branch: each tier in its own \<^verbatim>\<open>try\<close>, then \<^verbatim>\<open>return\<close>.\<close>

definition mobilePath :: "audio_platform \<Rightarrow> audio_state \<Rightarrow> unit audio_result" where
  "mobilePath p s =
     (case mobileWebAudio p s of
        (Hangs, s1, snds) \<Rightarrow> (Hangs, s1, snds)
      | (Throws e, s1, snds) \<Rightarrow> mobileFallback p s1 snds
      | (Returns webAudioPlayed, s1, snds) \<Rightarrow>
          if \<not> webAudioPlayed then mobileFallback p s1 snds else (Returns (), s1, snds))"

text \<open>
  The end of the desktop branch: the final state check, the tone and the two timers.
\<close>

definition playDesktopTone :: "audio_platform \<Rightarrow> audio_state \<Rightarrow> unit audio_result" where
  "playDesktopTone p s =
     (if sharedAudioContext s \<noteq> Some Running then (Returns (), s, [])
      else
        (case playTone p of
           Some e \<Rightarrow> (Throws e, s, [])
         | None \<Rightarrow> (Returns (), s, [WebAudioAlert, ScheduledRepeat 600, ScheduledRepeat 1200])))"

text \<open>
  The desktop branch, inside the outer \<^verbatim>\<open>try\<close>: a constructor or tone failure
  is thrown to it, a rejected resume is caught by the inner \<^verbatim>\<open>try\<close>, which
  returns, and a pending resume keeps the function waiting.
\<close>

definition desktopPath :: "audio_platform \<Rightarrow> audio_state \<Rightarrow> unit audio_result" where
  "desktopPath p s =
     (case ensureContext p s of
        Inl e \<Rightarrow> (Throws e, s, [])
      | Inr s1 \<Rightarrow>
          if sharedAudioContext s1 = Some Suspended then
            (case resumeFirst p of
               Pending \<Rightarrow> (Hangs, s1, [])
             | Rejects e \<Rightarrow> (Returns (), s1, [])
             | Resolves c \<Rightarrow>
                 let s2 = s1\<lparr>sharedAudioContext := Some c, audioContextResumed := True\<rparr>
                 in if c = Suspended then
                      (case resumeSecond p of
                         Pending \<Rightarrow> (Hangs, s2, [])
                       | Rejects e \<Rightarrow> (Returns (), s2, [])
                       | Resolves c2 \<Rightarrow> playDesktopTone p (s2\<lparr>sharedAudioContext := Some c2\<rparr>))
                    else playDesktopTone p s2)
          else playDesktopTone p s1)"

text \<open>The body of the outer \<^verbatim>\<open>try\<close> of \<^verbatim>\<open>playAlertSound\<close>.\<close>

definition playAlertSound_try :: "audio_platform \<Rightarrow> audio_state \<Rightarrow> unit audio_result" where
  "playAlertSound_try p s = (if isMobile p then mobilePath p s else desktopPath p s)"

text \<open>
  \<^verbatim>\<open>playAlertSound\<close>: the outer \<^verbatim>\<open>catch\<close> logs what the body threw.  The first
  component is the promise the caller gets: \<open>Returns ()\<close> resolved, \<open>Throws e\<close> rejected
  with \<open>e\<close>, \<open>Hangs\<close> pending for ever.
\<close>

definition playAlertSound :: "audio_platform \<Rightarrow> audio_state \<Rightarrow> unit audio_result" where
  "playAlertSound p s =
     (case playAlertSound_try p s of
        (Throws e, s', snds) \<Rightarrow> (Returns (), s', snds)
      | (Returns u, s', snds) \<Rightarrow> (Returns u, s', snds)
      | (Hangs, s', snds) \<Rightarrow> (Hangs, s', snds))"

text \<open>Every promise that the audio code awaits is settled by the platform.\<close>

definition awaitsSettle :: "audio_platform \<Rightarrow> bool" where
  "awaitsSettle p =
     (resumeFirst p \<noteq> Pending \<and> resumeSecond p \<noteq> Pending \<and> audioPlay p \<noteq> PlayPromise Pending)"

text \<open>
  Every tier fails: the constructor throws, both resumes reject, the tone cannot be
  started, and the media-element tier fails at its context, its encoding or its play.
\<close>

definition rejects :: "'a promise \<Rightarrow> bool" where
  "rejects x = (case x of Rejects e \<Rightarrow> True | Resolves v \<Rightarrow> False | Pending \<Rightarrow> False)"

definition html5Fails :: "audio_platform \<Rightarrow> bool" where
  "html5Fails p =
     (newFallbackContext p \<noteq> None \<or> encodeWav p \<noteq> None
      \<or> (case audioPlay p of
            PlayThrows e \<Rightarrow> True
          | PlayUndefined \<Rightarrow> False
          | PlayPromise x \<Rightarrow> rejects x))"

definition allTiersFail :: "audio_platform \<Rightarrow> bool" where
  "allTiersFail p =
     (isl (newAudioContext p) \<and> rejects (resumeFirst p) \<and> rejects (resumeSecond p)
      \<and> playTone p \<noteq> None \<and> html5Fails p)"

text \<open>
  Sample platforms: one where every call fails, one whose context starts suspended and
  whose \<^verbatim>\<open>resume()\<close> the browser never settles, and one where everything works.
\<close>

definition deadPlatform :: "bool \<Rightarrow> audio_platform" where
  "deadPlatform mobile =
     \<lparr>windowDefined = True, isMobile = mobile,
      newAudioContext = Inl (ErrorObj ''AudioContext is not defined''),
      resumeFirst = Rejects (ErrorObj ''NotAllowedError''),
      resumeSecond = Rejects (ErrorObj ''NotAllowedError''),
      playTone = Some (ErrorObj ''InvalidStateError''),
      newFallbackContext = Some (ErrorObj ''AudioContext is not defined''),
      encodeWav = Some (ErrorObj ''RangeError''),
      audioPlay = PlayPromise (Rejects (ErrorObj ''NotAllowedError''))\<rparr>"

definition blockedPlatform :: "bool \<Rightarrow> audio_platform" where
  "blockedPlatform mobile =
     \<lparr>windowDefined = True, isMobile = mobile,
      newAudioContext = Inr Suspended,
      resumeFirst = Pending,
      resumeSecond = Pending,
      playTone = None,
      newFallbackContext = None,
      encodeWav = None,
      audioPlay = PlayPromise (Rejects (ErrorObj ''NotAllowedError''))\<rparr>"

definition workingPlatform :: "bool \<Rightarrow> audio_platform" where
  "workingPlatform mobile =
     \<lparr>windowDefined = True, isMobile = mobile,
      newAudioContext = Inr Suspended,
      resumeFirst = Resolves Running,
      resumeSecond = Resolves Running,
      playTone = None,
      newFallbackContext = None,
      encodeWav = None,
      audioPlay = PlayPromise (Resolves ())\<rparr>"

definition freshAudio :: audio_state where
  "freshAudio = \<lparr>sharedAudioContext = None, audioContextResumed = False\<rparr>"

section \<open>useEarthquakes: normalising feed records\<close>

text \<open>
  A record of the feed, as section 6 of the specification gives its shape, every field
  possibly \<^verbatim>\<open>undefined\<close> or \<^verbatim>\<open>null\<close>.  An entry of the
  \<^verbatim>\<open>features\<close> array or of a coordinates array may itself be \<^verbatim>\<open>null\<close>.
\<close>

record properties =
  p_mag :: "real js"
  p_place :: "string js"
  p_time :: "real js"
  p_url :: "string js"

record geometry =
  coordinates :: "real js list js"

record feature =
  f_id :: "string js"
  f_properties :: "properties js"
  f_geometry :: "geometry js"

text \<open>
  \<^verbatim>\<open>x || d\<close>: the default replaces every falsy value, so a number that is
  \<^verbatim>\<open>0\<close> and a string that is empty are replaced as a missing one is.
\<close>

definition orNum :: "real js \<Rightarrow> real \<Rightarrow> real" where
  "orNum x d = (case x of Undefined \<Rightarrow> d | Null \<Rightarrow> d | Val r \<Rightarrow> if r = 0 then d else r)"

definition orStr :: "string js \<Rightarrow> string \<Rightarrow> string" where
  "orStr x d = (case x of Undefined \<Rightarrow> d | Null \<Rightarrow> d | Val t \<Rightarrow> if t = [] then d else t)"

definition truthyStr :: "string js \<Rightarrow> bool" where
  "truthyStr x = (case x of Undefined \<Rightarrow> False | Null \<Rightarrow> False | Val t \<Rightarrow> t \<noteq> [])"

text \<open>\<^verbatim>\<open>xs[i]\<close>: \<^verbatim>\<open>undefined\<close> beyond the end of the array.\<close>

definition at_index :: "'a js list \<Rightarrow> nat \<Rightarrow> 'a js" where
  "at_index xs i = (if i < length xs then xs ! i else Undefined)"

text \<open>
  A value inside a template string; \<open>numToString\<close> is the rendering of a number by the
  JavaScript engine.
\<close>

definition showNum :: "(real \<Rightarrow> string) \<Rightarrow> real js \<Rightarrow> string" where
  "showNum numToString x =
     (case x of Undefined \<Rightarrow> ''undefined'' | Null \<Rightarrow> ''null'' | Val r \<Rightarrow> numToString r)"

definition showStr :: "string js \<Rightarrow> string" where
  "showStr x = (case x of Undefined \<Rightarrow> ''undefined'' | Null \<Rightarrow> ''null'' | Val t \<Rightarrow> t)"

text \<open>
  The predicate of \<^verbatim>\<open>.filter(...)\<close>:
  \<^verbatim>\<open>feature && feature.properties && feature.geometry && feature.geometry.coordinates\<close>.
  An object and an array are truthy whatever they hold.
\<close>

definition acceptsFeature :: "feature js \<Rightarrow> bool" where
  "acceptsFeature fo =
     (case fo of
        Val f \<Rightarrow>
          (case f_properties f of
             Val pr \<Rightarrow>
               (case f_geometry f of
                  Val g \<Rightarrow> (case coordinates g of Val cs \<Rightarrow> True | _ \<Rightarrow> False)
                | _ \<Rightarrow> False)
           | _ \<Rightarrow> False)
      | _ \<Rightarrow> False)"

text \<open>
  The callback of \<^verbatim>\<open>.map(...)\<close>.  Reading a property of \<^verbatim>\<open>null\<close> or
  \<^verbatim>\<open>undefined\<close> throws a TypeError.
\<close>

definition typeError :: thrown where
  "typeError = ErrorObj ''Cannot read properties of undefined''"

text \<open>
  \<^verbatim>\<open>`quake-${feature.properties.time}-${coordinates[0]}-${coordinates[1]}`\<close>
\<close>

definition syntheticId :: "(real \<Rightarrow> string) \<Rightarrow> real js \<Rightarrow> real js list \<Rightarrow> string" where
  "syntheticId numToString t cs =
     ''quake-'' @ showNum numToString t @ ''-'' @ showNum numToString (at_index cs 0)
       @ ''-'' @ showNum numToString (at_index cs 1)"

definition toEarthquake :: "(real \<Rightarrow> string) \<Rightarrow> real \<Rightarrow> feature js \<Rightarrow> thrown + earthquake" where
  "toEarthquake numToString now fo =
     (case fo of
        Val f \<Rightarrow>
          (case f_properties f of
             Val pr \<Rightarrow>
               (case f_geometry f of
                  Val g \<Rightarrow>
                    (case coordinates g of
                       Val cs \<Rightarrow>
                         Inr \<lparr>eq_id = orStr (f_id f) (syntheticId numToString (p_time pr) cs),
                              magnitude = orNum (p_mag pr) 0,
                              place = orStr (p_place pr) ''Unknown'',
                              time = orNum (p_time pr) now,
                              depth = orNum (at_index cs 2) 0,
                              latitude = at_index cs 1,
                              longitude = at_index cs 0,
                              url = orStr (p_url pr) []\<rparr>
                     | _ \<Rightarrow> Inl typeError)
                | _ \<Rightarrow> Inl typeError)
           | _ \<Rightarrow> Inl typeError)
      | _ \<Rightarrow> Inl typeError)"

text \<open>\<^verbatim>\<open>.map\<close> with a callback that may throw: the first throw ends the loop.\<close>

fun mapThrowing :: "('a \<Rightarrow> thrown + 'b) \<Rightarrow> 'a list \<Rightarrow> thrown + 'b list" where
  "mapThrowing g [] = Inr []"
| "mapThrowing g (x # xs) =
     (case g x of
        Inl e \<Rightarrow> Inl e
      | Inr y \<Rightarrow> (case mapThrowing g xs of Inl e \<Rightarrow> Inl e | Inr ys \<Rightarrow> Inr (y # ys)))"

definition normalizeBatch ::
  "(real \<Rightarrow> string) \<Rightarrow> real \<Rightarrow> feature js list \<Rightarrow> thrown + earthquake list" where
  "normalizeBatch numToString now features =
     mapThrowing (toEarthquake numToString now) (filter acceptsFeature features)"

text \<open>
  The words of the specification, for comparison with the filter: a record has a
  properties block, and it has a coordinate pair when its geometry carries an array of
  at least two coordinates.
\<close>

definition hasPropertiesBlock :: "feature \<Rightarrow> bool" where
  "hasPropertiesBlock f = (case f_properties f of Val pr \<Rightarrow> True | _ \<Rightarrow> False)"

definition hasCoordinatePair :: "feature \<Rightarrow> bool" where
  "hasCoordinatePair f =
     (case f_geometry f of
        Val g \<Rightarrow> (case coordinates g of Val cs \<Rightarrow> 2 \<le> length cs | _ \<Rightarrow> False)
      | _ \<Rightarrow> False)"

section \<open>useEarthquakes: the region filter\<close>

text \<open>
  \<^verbatim>\<open>Math.atan2(y, x)\<close> on reals, and the distance of the filter callback with the
  centre as a parameter.  \<^verbatim>\<open>Math.sqrt\<close> of a negative number is \<^verbatim>\<open>NaN\<close>,
  which makes the distance \<^verbatim>\<open>NaN\<close>: \<open>None\<close> here.
\<close>

definition atan2 :: "real \<Rightarrow> real \<Rightarrow> real" where
  "atan2 y x =
     (if 0 < x then arctan (y / x)
      else if x < 0 then (if 0 \<le> y then arctan (y / x) + pi else arctan (y / x) - pi)
      else if 0 < y then pi / 2
      else if y < 0 then - (pi / 2)
      else 0)"

text \<open>\<^verbatim>\<open>const R = 6371\<close>, the radius of the Earth in kilometres.\<close>

definition earthRadiusKm :: real where
  "earthRadiusKm = 6371"

definition haversineA :: "real \<Rightarrow> real \<Rightarrow> real \<Rightarrow> real \<Rightarrow> real" where
  "haversineA lat0 lon0 lat lon =
     (let dLat = (lat - lat0) * pi / 180;
          dLon = (lon - lon0) * pi / 180
      in sin (dLat / 2) * sin (dLat / 2)
         + cos (lat0 * pi / 180) * cos (lat * pi / 180) * sin (dLon / 2) * sin (dLon / 2))"

definition distanceKm :: "real \<Rightarrow> real \<Rightarrow> real \<Rightarrow> real \<Rightarrow> real option" where
  "distanceKm lat0 lon0 lat lon =
     (let a = haversineA lat0 lon0 lat lon
      in if 0 \<le> a \<and> a \<le> 1
         then Some (earthRadiusKm * (2 * atan2 (sqrt a) (sqrt (1 - a))))
         else None)"

text \<open>\<^verbatim>\<open>distance <= radiusKm\<close>; a comparison with \<^verbatim>\<open>NaN\<close> is false.\<close>

definition withinRadius :: "real \<times> real \<Rightarrow> real \<times> real \<Rightarrow> real \<Rightarrow> bool" where
  "withinRadius c p r =
     (case distanceKm (fst c) (snd c) (fst p) (snd p) of
        None \<Rightarrow> False
      | Some d \<Rightarrow> d \<le> r)"

definition israelLat :: real where "israelLat = 31.0"
definition israelLon :: real where "israelLon = 35.0"
definition radiusKm :: real where "radiusKm = 1500"

text \<open>
  A value used in arithmetic: \<^verbatim>\<open>undefined\<close> becomes \<^verbatim>\<open>NaN\<close> (\<open>None\<close>)
  and \<^verbatim>\<open>null\<close> becomes 0.
\<close>

definition toNumber :: "real js \<Rightarrow> real option" where
  "toNumber x = (case x of Undefined \<Rightarrow> None | Null \<Rightarrow> Some 0 | Val r \<Rightarrow> Some r)"

text \<open>
  The callback of the second \<^verbatim>\<open>.filter\<close>, with \<^verbatim>\<open>israelLat\<close>,
  \<^verbatim>\<open>israelLon\<close> and \<^verbatim>\<open>radiusKm\<close> as the source has them; a latitude or
  longitude that is \<^verbatim>\<open>NaN\<close> makes every intermediate value \<^verbatim>\<open>NaN\<close>.
\<close>

definition regionFilter :: "real \<Rightarrow> earthquake \<Rightarrow> bool" where
  "regionFilter minMagnitude quake =
     (case (toNumber (latitude quake), toNumber (longitude quake)) of
        (Some la, Some lo) \<Rightarrow>
          withinRadius (israelLat, israelLon) (la, lo) radiusKm
          \<and> minMagnitude \<le> magnitude quake
      | _ \<Rightarrow> False)"

text \<open>
  The haversine formula as the textbooks give it, for comparison:
  \<open>d = 2 r arcsin (sqrt (hav \<Delta>\<phi> + cos \<phi>1 cos \<phi>2 hav \<Delta>\<lambda>))\<close>.
\<close>

definition radians :: "real \<Rightarrow> real" where
  "radians deg = deg * pi / 180"

definition hav :: "real \<Rightarrow> real" where
  "hav x = (1 - cos x) / 2"

definition haversineDistance :: "real \<times> real \<Rightarrow> real \<times> real \<Rightarrow> real" where
  "haversineDistance c p =
     2 * 6371 * arcsin (sqrt (hav (radians (fst p) - radians (fst c))
        + cos (radians (fst c)) * cos (radians (fst p)) * hav (radians (snd p) - radians (snd c))))"

definition validLatitude :: "real \<Rightarrow> bool" where
  "validLatitude lat = (- 90 \<le> lat \<and> lat \<le> 90)"

text \<open>Sample events at a given latitude and longitude.\<close>

definition quakeAt :: "real js \<Rightarrow> real js \<Rightarrow> real \<Rightarrow> earthquake" where
  "quakeAt la lo m = (sampleQuake ''eq'' m)\<lparr>latitude := la, longitude := lo\<rparr>"

section \<open>useEarthquakes: fetchEarthquakesFn\<close>

datatype time_range = H24 | D7 | D30

text \<open>
  The two upstream requests: the aggregated feed of a time range, and the query with
  start time, end time and minimum magnitude (centre 31.0, 35.0 and radius 1500 km are
  constants of the request).
\<close>

datatype request = RealtimeFeed time_range | QueryApi real real real

text \<open>
  A parsed body: JSON \<^verbatim>\<open>null\<close>, or a value whose \<^verbatim>\<open>features\<close> is an array
  (\<open>Some\<close>) or is missing or not an array (\<open>None\<close>).
\<close>

datatype body = BodyNull | BodyValue "feature js list option"

record response =
  ok :: bool
  statusText :: string
  json :: "thrown + body"

record poller_config =
  timeRange :: time_range
  minMagnitude :: real

record poller_env =
  fetch :: "request \<Rightarrow> thrown + response"
  dateNow :: real
  numToString :: "real \<Rightarrow> string"

record poller_state =
  earthquakes :: "earthquake list"
  loading :: bool
  error :: "string option"

definition windowMillis :: "time_range \<Rightarrow> real" where
  "windowMillis r =
     (case r of
        H24 \<Rightarrow> 24 * 60 * 60 * 1000
      | D7 \<Rightarrow> 7 * 24 * 60 * 60 * 1000
      | D30 \<Rightarrow> 30 * 24 * 60 * 60 * 1000)"

definition requestFor :: "poller_config \<Rightarrow> poller_env \<Rightarrow> request" where
  "requestFor cfg env =
     (if minMagnitude cfg \<le> 0.1 then RealtimeFeed (timeRange cfg)
      else QueryApi (dateNow env - windowMillis (timeRange cfg)) (dateNow env) (minMagnitude cfg))"

text \<open>\<^verbatim>\<open>fetch\<close>, the status check and \<^verbatim>\<open>response.json()\<close> of either branch.\<close>

definition fetchData :: "poller_config \<Rightarrow> poller_env \<Rightarrow> thrown + body" where
  "fetchData cfg env =
     (case fetch env (requestFor cfg env) of
        Inl e \<Rightarrow> Inl e
      | Inr r \<Rightarrow>
          if \<not> ok r then Inl (ErrorObj (''API error: '' @ statusText r))
          else json r)"

text \<open>\<^verbatim>\<open>earthquakesData.sort((a, b) => b.time - a.time)\<close>: stable, latest first.\<close>

definition sortByTime :: "earthquake list \<Rightarrow> earthquake list" where
  "sortByTime qs = sort_key (\<lambda>q. - time q) qs"

text \<open>The \<^verbatim>\<open>try\<close> block, run after the loading flag is set and the error cleared.\<close>

definition fetchEarthquakes_try ::
  "poller_config \<Rightarrow> poller_env \<Rightarrow> poller_state \<Rightarrow> thrown + poller_state" where
  "fetchEarthquakes_try cfg env st =
     (case fetchData cfg env of
        Inl e \<Rightarrow> Inl e
      | Inr BodyNull \<Rightarrow> Inl typeError
      | Inr (BodyValue None) \<Rightarrow> Inr (st\<lparr>earthquakes := []\<rparr>)
      | Inr (BodyValue (Some features)) \<Rightarrow>
          (case normalizeBatch (numToString env) (dateNow env) features of
             Inl e \<Rightarrow> Inl e
           | Inr qs \<Rightarrow>
               let inRegion = (if minMagnitude cfg \<le> 0.1
                               then filter (regionFilter (minMagnitude cfg)) qs else qs)
               in Inr (st\<lparr>earthquakes := sortByTime inRegion\<rparr>)))"

text \<open>
  \<^verbatim>\<open>err instanceof Error ? err.message : 'Failed to fetch earthquakes'\<close>
\<close>

definition errorMessage :: "thrown \<Rightarrow> string" where
  "errorMessage err = (case err of ErrorObj m \<Rightarrow> m | NonError \<Rightarrow> ''Failed to fetch earthquakes'')"

text \<open>
  \<^verbatim>\<open>fetchEarthquakesFn\<close>: \<open>Inr\<close> is the state when the returned promise resolves,
  \<open>Inl\<close> a rejection.
\<close>

definition fetchEarthquakesFn ::
  "poller_config \<Rightarrow> poller_env \<Rightarrow> poller_state \<Rightarrow> thrown + poller_state" where
  "fetchEarthquakesFn cfg env st =
     (let st0 = st\<lparr>loading := True, error := None\<rparr>
      in case fetchEarthquakes_try cfg env st0 of
           Inr st1 \<Rightarrow> Inr (st1\<lparr>loading := False\<rparr>)
         | Inl err \<Rightarrow> Inr (st0\<lparr>error := Some (errorMessage err), loading := False\<rparr>))"

text \<open>
  The interval: one call per tick, each with what the platform answers at that tick; a
  rejected call is the result of the loop.
\<close>

fun pollLoop :: "poller_config \<Rightarrow> poller_env list \<Rightarrow> poller_state \<Rightarrow> thrown + poller_state" where
  "pollLoop cfg [] st = Inr st"
| "pollLoop cfg (env # envs) st =
     (case fetchEarthquakesFn cfg env st of
        Inl e \<Rightarrow> Inl e
      | Inr st' \<Rightarrow> pollLoop cfg envs st')"

text \<open>The three failures of a poll: transport error, non-2xx response, unparsable body.\<close>

definition fetchFails :: "poller_config \<Rightarrow> poller_env \<Rightarrow> bool" where
  "fetchFails cfg env =
     (case fetch env (requestFor cfg env) of
        Inl e \<Rightarrow> True
      | Inr r \<Rightarrow> \<not> ok r \<or> isl (json r))"

text \<open>Sample polls: the three failures, and a last good result.\<close>

definition downEnv :: poller_env where
  "downEnv =
     \<lparr>fetch = (\<lambda>r. Inl (ErrorObj ''Failed to fetch'')),
      dateNow = 1700000000000, numToString = (\<lambda>r. ''0'')\<rparr>"

definition http503Env :: poller_env where
  "http503Env =
     \<lparr>fetch = (\<lambda>r. Inr \<lparr>ok = False, statusText = ''Service Unavailable'',
                        json = Inr (BodyValue None)\<rparr>),
      dateNow = 1700000000000, numToString = (\<lambda>r. ''0'')\<rparr>"

definition garbledEnv :: poller_env where
  "garbledEnv =
     \<lparr>fetch = (\<lambda>r. Inr \<lparr>ok = True, statusText = ''OK'',
                        json = Inl (ErrorObj ''Unexpected token < in JSON'')\<rparr>),
      dateNow = 1700000000000, numToString = (\<lambda>r. ''0'')\<rparr>"

definition liveConfig :: poller_config where
  "liveConfig = \<lparr>timeRange = H24, minMagnitude = 2.5\<rparr>"

definition lastGood :: poller_state where
  "lastGood = \<lparr>earthquakes = [sampleQuake ''eq1'' 4.6], loading = False, error = None\<rparr>"

text \<open>
  Sample records: a complete one, one with an empty coordinates array and nothing else,
  one without geometry, and one without identifier whose time is \<^verbatim>\<open>null\<close>;
  and a rendering of the numbers that occur in them.
\<close>

definition fullFeature :: feature where
  "fullFeature =
     \<lparr>f_id = Val ''us7000abcd'',
      f_properties = Val \<lparr>p_mag = Val 5.1, p_place = Val ''10 km S of Eilat'',
                          p_time = Val 1700000000000, p_url = Val ''https://example.org''\<rparr>,
      f_geometry = Val \<lparr>coordinates = Val [Val 34.9, Val 29.5, Val 12]\<rparr>\<rparr>"

definition bareFeature :: feature where
  "bareFeature =
     \<lparr>f_id = Undefined,
      f_properties = Val \<lparr>p_mag = Undefined, p_place = Undefined, p_time = Undefined,
                          p_url = Undefined\<rparr>,
      f_geometry = Val \<lparr>coordinates = Val []\<rparr>\<rparr>"

definition noGeometryFeature :: feature where
  "noGeometryFeature = fullFeature\<lparr>f_geometry := Null\<rparr>"

definition nullTimeFeature :: feature where
  "nullTimeFeature =
     \<lparr>f_id = Null,
      f_properties = Val \<lparr>p_mag = Null, p_place = Null, p_time = Null, p_url = Null\<rparr>,
      f_geometry = Val \<lparr>coordinates = Val [Val 34.9, Val 29.5]\<rparr>\<rparr>"

definition sampleNumToString :: "real \<Rightarrow> string" where
  "sampleNumToString r =
     (if r = 34.9 then ''34.9'' else if r = 29.5 then ''29.5''
      else if r = 1700000000000 then ''1700000000000'' else ''0'')"

section \<open>RealtimeBridge: operator broadcasts\<close>

text \<open>
  A broadcast record of the realtime channel, every field possibly \<^verbatim>\<open>undefined\<close>
  or \<^verbatim>\<open>null\<close>, and what the handlers meet in the browser: whether
  \<^verbatim>\<open>Notification\<close> exists, its permission, whether its constructor throws,
  \<^verbatim>\<open>Date.now()\<close> as rendered in a template, the state of the shared audio context
  when the message arrives, and what the audio platform does during the call of
  \<^verbatim>\<open>activateAudioContext\<close> and during the call of \<^verbatim>\<open>playAlertSound\<close>.
\<close>

record broadcast =
  b_id :: "string js"
  b_title :: "string js"
  b_body :: "string js"
  b_language :: "string js"
  b_sound :: "bool js"
  b_sent_at :: "string js"

record browser_env =
  notificationSupported :: bool
  permission :: notification_permission
  notificationThrows :: bool
  dateNowString :: string
  audio :: audio_state
  activation :: audio_platform
  playback :: audio_platform

text \<open>
  How the awaited audio calls of a handler end: the activation, and the playing that
  starts from the audio state the activation has left.
\<close>

definition activationReturns :: "browser_env \<Rightarrow> bool" where
  "activationReturns env =
     (fst (activateAudioContext (activation env) (audio env)) = Returns ())"

definition playbackReturns :: "browser_env \<Rightarrow> bool" where
  "playbackReturns env =
     (fst (playAlertSound (playback env)
             (fst (snd (activateAudioContext (activation env) (audio env))))) = Returns ())"

text \<open>
  useSupabaseNotifications.ts:
  \<^verbatim>\<open>notification.language && notification.language !== currentLanguage && notification.language !== 'all'\<close>
\<close>

definition supabaseMismatch :: "language \<Rightarrow> broadcast \<Rightarrow> bool" where
  "supabaseMismatch currentLanguage n =
     (truthyStr (b_language n) \<and> b_language n \<noteq> Val (lang_code currentLanguage)
      \<and> b_language n \<noteq> Val ''all'')"

text \<open>
  What the Supabase handler does once both awaited audio calls have returned: the
  constructor call, and the update that marks the record as sent, which a throwing
  constructor skips.
\<close>

definition supabaseShow :: "browser_env \<Rightarrow> broadcast \<Rightarrow> effect list" where
  "supabaseShow env n =
     [BroadcastNotification
        \<lparr>bn_title = b_title n, bn_body = b_body n,
         bn_tag = ''admin-notification-'' @ showStr (b_id n),
         bn_requireInteraction = True\<rparr>]
     @ (if \<not> notificationThrows env \<and> \<not> truthyStr (b_sent_at n)
        then [MarkSent (b_id n)] else [])"

text \<open>
  The callback of the \<^verbatim>\<open>INSERT\<close> subscription.  It awaits
  \<^verbatim>\<open>activateAudioContext()\<close> (in a \<^verbatim>\<open>try\<close> of its own) and then
  \<^verbatim>\<open>playAlertSound()\<close>, and constructs the notification after both: while one of
  them is pending nothing further is called.
\<close>

definition supabaseOnInsert :: "browser_env \<Rightarrow> language \<Rightarrow> broadcast \<Rightarrow> effect list" where
  "supabaseOnInsert env currentLanguage n =
     (if supabaseMismatch currentLanguage n then []
      else if \<not> notificationSupported env then []
      else if permission env \<noteq> Granted then []
      else
        (case activateAudioContext (activation env) (audio env) of
           (Hangs, s1, snds) \<Rightarrow> [ActivateAudioContext]
         | (r, s1, snds) \<Rightarrow>
             (case playAlertSound (playback env) s1 of
                (Returns u, s2, snds2) \<Rightarrow>
                  [ActivateAudioContext, PlayAlertSound] @ supabaseShow env n
              | (r2, s2, snds2) \<Rightarrow> [ActivateAudioContext, PlayAlertSound])))"

text \<open>
  useFirebaseNotifications.ts:
  \<^verbatim>\<open>notification.language && notification.language !== 'all' && notification.language !== currentLanguage\<close>
\<close>

definition firebaseMismatch :: "language \<Rightarrow> broadcast \<Rightarrow> bool" where
  "firebaseMismatch currentLanguage n =
     (truthyStr (b_language n) \<and> b_language n \<noteq> Val ''all''
      \<and> b_language n \<noteq> Val (lang_code currentLanguage))"

text \<open>
  The Firebase handler does not await: it calls \<^verbatim>\<open>activateAudioContext()\<close> when
  the sound flag is not \<^verbatim>\<open>false\<close>, constructs the notification, and
  \<^verbatim>\<open>playAlertSound()\<close> is called from \<^verbatim>\<open>then\<close>, that is later and only if
  the activation has resolved.
\<close>

definition firebaseDeliver :: "browser_env \<Rightarrow> language \<Rightarrow> broadcast \<Rightarrow> effect list" where
  "firebaseDeliver env currentLanguage n =
     (if firebaseMismatch currentLanguage n then []
      else if \<not> notificationSupported env then []
      else if permission env \<noteq> Granted then []
      else
        (if b_sound n \<noteq> Val False then [ActivateAudioContext] else [])
        @ [BroadcastNotification
             \<lparr>bn_title = Val (orStr (b_title n) ''Earthquake Monitor''),
              bn_body = Val (orStr (b_body n) []),
              bn_tag = ''earthquake-monitor-'' @ orStr (b_id n) (dateNowString env),
              bn_requireInteraction = False\<rparr>]
        @ (if b_sound n \<noteq> Val False \<and> activationReturns env then [PlayAlertSound] else []))"

text \<open>
  The callback of \<^verbatim>\<open>onValue\<close>.  A snapshot value is \<^verbatim>\<open>null\<close> (\<open>None\<close>) or an
  object, given by its entries in the order of \<^verbatim>\<open>Object.keys\<close>; the value under a
  key may be falsy (\<open>None\<close>).
\<close>

definition firebaseOnValue ::
  "browser_env \<Rightarrow> language \<Rightarrow> (string \<times> broadcast option) list option \<Rightarrow> effect list" where
  "firebaseOnValue env currentLanguage snapshot =
     (case snapshot of
        None \<Rightarrow> []
      | Some notifications \<Rightarrow>
          if length notifications = 0 then []
          else
            (case snd (notifications ! (length notifications - 1)) of
               None \<Rightarrow> []
             | Some n \<Rightarrow> firebaseDeliver env currentLanguage n))"

fun isBroadcastNotification :: "effect \<Rightarrow> bool" where
  "isBroadcastNotification (BroadcastNotification n) = True"
| "isBroadcastNotification _ = False"

definition showsNotification :: "effect list \<Rightarrow> bool" where
  "showsNotification effs = list_ex isBroadcastNotification effs"

definition playsSound :: "effect list \<Rightarrow> bool" where
  "playsSound effs = (PlayAlertSound \<in> set effs)"

text \<open>The language test of section 4.5, and its extension to a record without a tag.\<close>

definition tagMatches :: "language \<Rightarrow> broadcast \<Rightarrow> bool" where
  "tagMatches viewer n = (b_language n = Val ''all'' \<or> b_language n = Val (lang_code viewer))"

definition tagAbsent :: "broadcast \<Rightarrow> bool" where
  "tagAbsent n = (b_language n = Undefined \<or> b_language n = Null \<or> b_language n = Val [])"

text \<open>
  Sample data: a broadcast with a given language field, a browser that has granted the
  permission and plays sound, and the same with a context that the browser keeps
  suspended.
\<close>

definition broadcastIn :: "string js \<Rightarrow> broadcast" where
  "broadcastIn lang =
     \<lparr>b_id = Val ''n1'', b_title = Val ''Drill'', b_body = Val ''This is a drill'',
      b_language = lang, b_sound = Val True, b_sent_at = Null\<rparr>"

definition grantedBrowser :: browser_env where
  "grantedBrowser =
     \<lparr>notificationSupported = True, permission = Granted, notificationThrows = False,
      dateNowString = ''1700000000000'', audio = freshAudio,
      activation = workingPlatform False, playback = workingPlatform False\<rparr>"

definition blockedBrowser :: browser_env where
  "blockedBrowser =
     grantedBrowser\<lparr>activation := blockedPlatform False, playback := blockedPlatform False\<rparr>"

section \<open>RealtimeBridge: the subscription guard\<close>

datatype channel_status = SUBSCRIBED | CHANNEL_ERROR | TIMED_OUT | CLOSED

text \<open>
  \<^verbatim>\<open>subscriptionRef\<close> of useSupabaseNotifications.ts holds the channel (here its
  number) or \<^verbatim>\<open>null\<close>; \<open>channelsCreated\<close> counts the calls of
  \<^verbatim>\<open>supabase.channel(...).subscribe(...)\<close>.
\<close>

record bridge_state =
  subscriptionRef :: "nat option"
  channelsCreated :: nat

text \<open>
  One pass of the subscribing effect; \<open>configured\<close> is whether the client exists.
\<close>

definition subscribeEffect :: "bool \<Rightarrow> bool \<Rightarrow> bridge_state \<Rightarrow> bridge_state" where
  "subscribeEffect enabled configured st =
     (if \<not> enabled \<or> \<not> configured then st
      else if subscriptionRef st \<noteq> None then st
      else \<lparr>subscriptionRef = Some (channelsCreated st),
            channelsCreated = Suc (channelsCreated st)\<rparr>)"

text \<open>The status callback passed to \<^verbatim>\<open>subscribe\<close>: three branches only log.\<close>

definition onStatus :: "channel_status \<Rightarrow> bridge_state \<Rightarrow> bridge_state" where
  "onStatus status st =
     (if status = SUBSCRIBED then st
      else if status = CHANNEL_ERROR then st
      else if status = TIMED_OUT then st
      else if status = CLOSED then st\<lparr>subscriptionRef := None\<rparr>
      else st)"

definition activeBridge :: bridge_state where
  "activeBridge = subscribeEffect True True \<lparr>subscriptionRef = None, channelsCreated = 0\<rparr>"

section \<open>Theorems: change detection and urgent alerts\<close>

lemma newEarthquakes_set:
  "set (newEarthquakes previous qs) = {q \<in> set qs. eq_id q \<notin> previous}"
  by (simp add: newEarthquakes_def)

text \<open>
  Claim C1, as the code has it.  When the hook is enabled, the poll is not empty and the
  permission is granted, the effect replaces the set of seen identifiers by the
  identifiers of the current poll, whether or not the delta is empty, and the delta is
  the current events whose identifier is not in the previous set, in their order.
  Otherwise the effect returns at once: the set is left as it was and nothing is raised.
\<close>

theorem changeDetector_replaces_seen:
  "(\<not> skipsPoll enabled qs st \<longrightarrow>
      previousEarthquakesRef (fst (monitorEffect enabled lang qs st)) = currentIds qs
    \<and> fst (snd (monitorEffect enabled lang qs st))
        = filter (\<lambda>q. eq_id q \<notin> previousEarthquakesRef st) qs)
   \<and> (skipsPoll enabled qs st \<longrightarrow> monitorEffect enabled lang qs st = (st, [], []))"
  by (simp add: monitorEffect_def Let_def newEarthquakes_def)

text \<open>
  The theorem at a poll that is processed and at an empty poll.
\<close>

theorem changeDetector_replaces_seen_witness:
  "\<not> skipsPoll True [sampleQuake ''eq2'' 2] (grantedState {''eq1''})
   \<and> previousEarthquakesRef (fst (monitorEffect True En [sampleQuake ''eq2'' 2] (grantedState {''eq1''}))) = {''eq2''}
   \<and> map eq_id (fst (snd (monitorEffect True En [sampleQuake ''eq2'' 2] (grantedState {''eq1''})))) = [''eq2'']
   \<and> skipsPoll True [] (grantedState {''eq1''})
   \<and> monitorEffect True En [] (grantedState {''eq1''}) = (grantedState {''eq1''}, [], [])"
  using changeDetector_replaces_seen [of True "[sampleQuake ''eq2'' 2]" "grantedState {''eq1''}" En]
        changeDetector_replaces_seen [of True "[]" "grantedState {''eq1''}" En]
  by (simp add: skipsPoll_def grantedState_def currentIds_def sampleQuake_def)

text \<open>
  Claim C1 as stated fails: after a poll that holds only eq2 the set that held eq1 and
  eq2 is not their union with the poll, and it has shrunk.
\<close>

theorem seen_union_counterexample:
  "previousEarthquakesRef (fst (monitorEffect True En [sampleQuake ''eq2'' 2] (grantedState {''eq1'', ''eq2''})))
     \<noteq> previousEarthquakesRef (grantedState {''eq1'', ''eq2''}) \<union> currentIds [sampleQuake ''eq2'' 2]
   \<and> card (previousEarthquakesRef (fst (monitorEffect True En [sampleQuake ''eq2'' 2] (grantedState {''eq1'', ''eq2''}))))
     < card (previousEarthquakesRef (grantedState {''eq1'', ''eq2''}))"
  by (simp add: monitorEffect_def skipsPoll_def grantedState_def currentIds_def sampleQuake_def newEarthquakes_def Let_def)

lemma alertsFor_append: "alertsFor i (xs @ ys) = alertsFor i xs @ alertsFor i ys"
  by (simp add: alertsFor_def)

lemma length_alertsFor_notifyQuake:
  "length (alertsFor i (notifyQuake lang q)) = (if eq_id q = i \<and> magnitude q > 4.5 then 1 else 0)"
  by (simp add: alertsFor_def notifyQuake_def)

lemma length_alertsFor_batch:
  "length (alertsFor i (concat (map (notifyQuake lang) qs)))
     = length (filter (\<lambda>q. eq_id q = i \<and> magnitude q > 4.5) qs)"
  by (induction qs) (simp_all add: alertsFor_append length_alertsFor_notifyQuake, simp add: alertsFor_def)

lemma filter_id_distinct:
  "distinct (map f xs) \<Longrightarrow> x \<in> set xs \<Longrightarrow> filter (\<lambda>y. f y = f x) xs = [x]"
proof (induction xs)
  case Nil
  then show ?case by simp
next
  case (Cons a xs)
  show ?case
  proof (cases "a = x")
    case True
    with Cons.prems have "f x \<notin> f ` set xs" by simp
    then have "filter (\<lambda>y. f y = f x) xs = []" by (force simp: filter_empty_conv image_iff)
    with True show ?thesis by simp
  next
    case False
    with Cons.prems have xin: "x \<in> set xs" and d: "distinct (map f xs)" by simp_all
    from Cons.prems xin have "f a \<noteq> f x" by auto
    with Cons.IH [OF d xin] show ?thesis by simp
  qed
qed

lemma monitorEffect_alerts:
  "\<not> skipsPoll enabled qs st \<Longrightarrow>
   length (alertsFor i (snd (snd (monitorEffect enabled lang qs st))))
     = length (filter (\<lambda>q. eq_id q = i \<and> magnitude q > 4.5 \<and> i \<notin> previousEarthquakesRef st) qs)"
proof -
  assume "\<not> skipsPoll enabled qs st"
  then have "length (alertsFor i (snd (snd (monitorEffect enabled lang qs st))))
     = length (filter (\<lambda>q. eq_id q = i \<and> magnitude q > 4.5)
         (filter (\<lambda>q. eq_id q \<notin> previousEarthquakesRef st) qs))"
    by (simp add: monitorEffect_def Let_def newEarthquakes_def length_alertsFor_batch)
  also have "\<dots> = length (filter (\<lambda>q. eq_id q = i \<and> magnitude q > 4.5 \<and> i \<notin> previousEarthquakesRef st) qs)"
    by (auto intro!: arg_cong [where f = length] filter_cong)
  finally show ?thesis .
qed

lemma monitorEffect_seen_no_alert:
  "i \<in> previousEarthquakesRef st \<Longrightarrow> alertsFor i (snd (snd (monitorEffect enabled lang qs st))) = []"
proof (cases "skipsPoll enabled qs st")
  case True
  then show ?thesis by (simp add: monitorEffect_def alertsFor_def)
next
  case False
  assume "i \<in> previousEarthquakesRef st"
  with monitorEffect_alerts [OF False, of i lang] show ?thesis by simp
qed

lemma monitorEffect_keeps_seen:
  "i \<in> previousEarthquakesRef st \<Longrightarrow> i \<in> currentIds qs \<Longrightarrow>
   i \<in> previousEarthquakesRef (fst (monitorEffect enabled lang qs st))"
  by (simp add: monitorEffect_def Let_def)

lemma runPolls_seen_no_alert:
  "i \<in> previousEarthquakesRef st \<Longrightarrow> \<forall>b \<in> set rest. i \<in> currentIds b \<Longrightarrow>
   alertsFor i (snd (runPolls enabled lang st rest)) = []"
proof (induction rest arbitrary: st)
  case Nil
  then show ?case by (simp add: alertsFor_def)
next
  case (Cons b rest)
  obtain st' d effs where m: "monitorEffect enabled lang b st = (st', d, effs)"
    by (cases "monitorEffect enabled lang b st") auto
  obtain st'' effs' where r: "runPolls enabled lang st' rest = (st'', effs')"
    by (cases "runPolls enabled lang st' rest") auto
  from Cons.prems have bi: "i \<in> currentIds b" by simp
  from monitorEffect_keeps_seen [OF Cons.prems(1) bi, of enabled lang] m
  have "i \<in> previousEarthquakesRef st'" by simp
  with Cons.IH [of st'] Cons.prems r have "alertsFor i effs' = []" by simp
  moreover from monitorEffect_seen_no_alert [OF Cons.prems(1), of enabled lang b] m
  have "alertsFor i effs = []" by simp
  ultimately show ?case using m r by (simp add: alertsFor_append)
qed

text \<open>
  Claim C2, as the code has it.  In a processed poll whose identifiers are distinct, an
  event above magnitude 4.5 whose identifier is not in the set of seen identifiers raises
  exactly one alert, and as long as every following poll still holds that identifier
  (the same batch delivered again, for one) the whole run raises no second one.
\<close>

theorem urgent_alert_once:
  assumes "\<not> skipsPoll enabled qs st"
    and "distinct (map eq_id qs)"
    and "q \<in> set qs"
    and "magnitude q > 4.5"
    and "eq_id q \<notin> previousEarthquakesRef st"
    and "\<forall>b \<in> set rest. eq_id q \<in> currentIds b"
  shows "length (alertsFor (eq_id q) (snd (snd (monitorEffect enabled lang qs st)))) = 1
       \<and> length (alertsFor (eq_id q) (snd (runPolls enabled lang st (qs # rest)))) = 1"
proof -
  have "filter (\<lambda>y. eq_id y = eq_id q \<and> magnitude y > 4.5 \<and> eq_id q \<notin> previousEarthquakesRef st) qs
        = filter (\<lambda>y. magnitude y > 4.5) (filter (\<lambda>y. eq_id y = eq_id q) qs)"
    using assms(5) by (auto intro!: filter_cong)
  also have "\<dots> = [q]"
    using filter_id_distinct [OF assms(2,3)] assms(4) by simp
  finally have one: "length (alertsFor (eq_id q) (snd (snd (monitorEffect enabled lang qs st)))) = 1"
    using monitorEffect_alerts [OF assms(1), of "eq_id q" lang] by simp
  obtain st' d effs where m: "monitorEffect enabled lang qs st = (st', d, effs)"
    by (cases "monitorEffect enabled lang qs st") auto
  obtain st'' effs' where r: "runPolls enabled lang st' rest = (st'', effs')"
    by (cases "runPolls enabled lang st' rest") auto
  from assms(1,3) m have "eq_id q \<in> previousEarthquakesRef st'"
    by (auto simp: monitorEffect_def Let_def currentIds_def)
  from runPolls_seen_no_alert [OF this assms(6), of enabled lang] r
  have "alertsFor (eq_id q) effs' = []" by simp
  with one m r show ?thesis by (simp add: alertsFor_append)
qed

text \<open>
  The theorem at an event of magnitude 4.6 whose batch is delivered three times.
\<close>

theorem urgent_alert_once_witness:
  "\<not> skipsPoll True [sampleQuake ''eq1'' 4.6] (grantedState {})
   \<and> distinct (map eq_id [sampleQuake ''eq1'' 4.6])
   \<and> magnitude (sampleQuake ''eq1'' 4.6) > 4.5
   \<and> eq_id (sampleQuake ''eq1'' 4.6) \<notin> previousEarthquakesRef (grantedState {})
   \<and> length (alertsFor ''eq1'' (snd (snd (monitorEffect True En [sampleQuake ''eq1'' 4.6] (grantedState {}))))) = 1
   \<and> length (alertsFor ''eq1'' (snd (runPolls True En (grantedState {})
        [[sampleQuake ''eq1'' 4.6], [sampleQuake ''eq1'' 4.6], [sampleQuake ''eq1'' 4.6, sampleQuake ''eq2'' 2]]))) = 1"
proof -
  have h1: "\<not> skipsPoll True [sampleQuake ''eq1'' 4.6] (grantedState {})"
    by (simp add: skipsPoll_def grantedState_def)
  have h2: "distinct (map eq_id [sampleQuake ''eq1'' 4.6])" by simp
  have h3: "sampleQuake ''eq1'' 4.6 \<in> set [sampleQuake ''eq1'' 4.6]" by simp
  have h4: "magnitude (sampleQuake ''eq1'' 4.6) > 4.5" by (simp add: sampleQuake_def)
  have h5: "eq_id (sampleQuake ''eq1'' 4.6) \<notin> previousEarthquakesRef (grantedState {})"
    by (simp add: grantedState_def)
  have h6: "\<forall>b \<in> set [[sampleQuake ''eq1'' 4.6], [sampleQuake ''eq1'' 4.6, sampleQuake ''eq2'' 2]].
              eq_id (sampleQuake ''eq1'' 4.6) \<in> currentIds b"
    by (simp add: currentIds_def)
  have e: "eq_id (sampleQuake ''eq1'' 4.6) = ''eq1''" by (simp add: sampleQuake_def)
  from urgent_alert_once [OF h1 h2 h3 h4 h5 h6, of En] h1 h2 h4 h5 show ?thesis
    unfolding e by simp
qed

text \<open>
  Claim C2 as stated fails: eq1 (magnitude 4.6) is alerted in the first poll, is missing
  from the second, and is alerted again in the third.  A poll that holds the identifier
  twice raises two alerts at once.
\<close>

theorem duplicate_alert_counterexample:
  "length (alertsFor ''eq1''
     (snd (runPolls True En (grantedState {})
        [[sampleQuake ''eq1'' 4.6], [sampleQuake ''eq2'' 2], [sampleQuake ''eq1'' 4.6]]))) = 2
   \<and> length (alertsFor ''eq1''
     (snd (runPolls True En (grantedState {})
        [[sampleQuake ''eq1'' 4.6, sampleQuake ''eq1'' 4.6]]))) = 2"
  by (simp add: monitorEffect_def skipsPoll_def grantedState_def currentIds_def sampleQuake_def
      newEarthquakes_def notifyQuake_def alertsFor_def Let_def)

section \<open>Theorems: the audio engine\<close>

lemma playAlertSound_try_can_throw:
  "fst (playAlertSound_try (deadPlatform False) freshAudio)
     = Throws (ErrorObj ''AudioContext is not defined'')"
  by (simp add: playAlertSound_try_def desktopPath_def ensureContext_def deadPlatform_def
      freshAudio_def)

lemma playAlertSound_not_Throws: "fst (playAlertSound p s) \<noteq> Throws e"
proof -
  obtain r s' snds where t: "playAlertSound_try p s = (r, s', snds)"
    by (cases "playAlertSound_try p s") auto
  then show ?thesis by (cases r) (simp_all add: playAlertSound_def)
qed

lemma playAlertSound_Hangs_iff:
  "fst (playAlertSound p s) = Hangs \<longleftrightarrow> fst (playAlertSound_try p s) = Hangs"
proof -
  obtain r s' snds where t: "playAlertSound_try p s = (r, s', snds)"
    by (cases "playAlertSound_try p s") auto
  then show ?thesis by (cases r) (simp_all add: playAlertSound_def)
qed

lemma playAlertSound_sounds:
  "snd (snd (playAlertSound p s)) = snd (snd (playAlertSound_try p s))"
proof -
  obtain r s' snds where t: "playAlertSound_try p s = (r, s', snds)"
    by (cases "playAlertSound_try p s") auto
  then show ?thesis by (cases r) (simp_all add: playAlertSound_def)
qed

lemma mobileTone_not_Hangs: "fst (mobileTone p s) \<noteq> Hangs"
  by (simp add: mobileTone_def split: option.splits)

lemma html5Audio_settles:
  "audioPlay p \<noteq> PlayPromise Pending \<Longrightarrow> fst (html5Audio p) \<noteq> Hangs"
  by (auto simp: html5Audio_def split: option.splits play_outcome.splits promise.splits)

lemma mobileFallback_settles:
  "audioPlay p \<noteq> PlayPromise Pending \<Longrightarrow> fst (mobileFallback p s snds) \<noteq> Hangs"
  using html5Audio_settles [of p]
  by (cases "html5Audio p"; cases "fst (html5Audio p)") (auto simp: mobileFallback_def)

lemma mobileWebAudio_settles:
  "resumeFirst p \<noteq> Pending \<Longrightarrow> fst (mobileWebAudio p s) \<noteq> Hangs"
  using mobileTone_not_Hangs
  by (auto simp: mobileWebAudio_def split: sum.splits promise.splits)

lemma mobilePath_settles:
  assumes "awaitsSettle p"
  shows "fst (mobilePath p s) \<noteq> Hangs"
proof -
  from assms have r: "resumeFirst p \<noteq> Pending" and a: "audioPlay p \<noteq> PlayPromise Pending"
    by (simp_all add: awaitsSettle_def)
  obtain c s1 snds where m: "mobileWebAudio p s = (c, s1, snds)"
    by (cases "mobileWebAudio p s") auto
  with mobileWebAudio_settles [OF r, of s] have "c \<noteq> Hangs" by simp
  with m mobileFallback_settles [OF a] show ?thesis
    by (cases c) (auto simp: mobilePath_def)
qed

lemma playDesktopTone_not_Hangs: "fst (playDesktopTone p s) \<noteq> Hangs"
  by (simp add: playDesktopTone_def split: option.splits)

lemma desktopPath_settles:
  assumes "awaitsSettle p"
  shows "fst (desktopPath p s) \<noteq> Hangs"
  using assms playDesktopTone_not_Hangs
  by (auto simp: desktopPath_def awaitsSettle_def Let_def split: sum.splits promise.splits)

lemma playAlertSound_settles:
  assumes "awaitsSettle p"
  shows "fst (playAlertSound p s) = Returns ()"
proof -
  have "fst (playAlertSound_try p s) \<noteq> Hangs"
    using mobilePath_settles [OF assms, of s] desktopPath_settles [OF assms, of s]
    by (simp add: playAlertSound_try_def)
  then have "fst (playAlertSound p s) \<noteq> Hangs" by (simp add: playAlertSound_Hangs_iff)
  with playAlertSound_not_Throws [of p s] show ?thesis
    by (cases "fst (playAlertSound p s)") auto
qed

lemma html5Audio_fails:
  "html5Fails p \<Longrightarrow> snd (html5Audio p) = [] \<and> fst (html5Audio p) \<noteq> Hangs"
  by (auto simp: html5Fails_def html5Audio_def rejects_def
      split: option.splits play_outcome.splits promise.splits)

lemma mobileFallback_fails:
  "html5Fails p \<Longrightarrow> mobileFallback p s snds = (Returns (), s, snds)"
  using html5Audio_fails [of p]
  by (cases "html5Audio p"; cases "fst (html5Audio p)") (auto simp: mobileFallback_def)

lemma mobileTone_fails:
  "playTone p \<noteq> None \<Longrightarrow> snd (snd (mobileTone p s)) = [] \<and> fst (mobileTone p s) \<noteq> Returns True"
  by (auto simp: mobileTone_def split: option.splits)

lemma mobileWebAudio_fails:
  assumes "playTone p \<noteq> None" "rejects (resumeFirst p)"
  shows "snd (snd (mobileWebAudio p s)) = [] \<and> fst (mobileWebAudio p s) \<noteq> Returns True
         \<and> fst (mobileWebAudio p s) \<noteq> Hangs"
  using assms mobileTone_fails [OF assms(1)] mobileTone_not_Hangs
  by (auto simp: mobileWebAudio_def rejects_def split: sum.splits promise.splits)

lemma mobilePath_fails:
  assumes "playTone p \<noteq> None" "rejects (resumeFirst p)" "html5Fails p"
  shows "fst (mobilePath p s) = Returns () \<and> snd (snd (mobilePath p s)) = []"
proof -
  obtain c s1 snds where m: "mobileWebAudio p s = (c, s1, snds)"
    by (cases "mobileWebAudio p s") auto
  with mobileWebAudio_fails [OF assms(1,2), of s]
  have "snds = []" "c \<noteq> Returns True" "c \<noteq> Hangs" by simp_all
  with m mobileFallback_fails [OF assms(3)] show ?thesis
    by (cases c) (auto simp: mobilePath_def)
qed

lemma playDesktopTone_fails: "playTone p \<noteq> None \<Longrightarrow> snd (snd (playDesktopTone p s)) = []"
  by (auto simp: playDesktopTone_def split: option.splits)

lemma desktopPath_fails:
  assumes "playTone p \<noteq> None"
  shows "snd (snd (desktopPath p s)) = []"
  using playDesktopTone_fails [OF assms]
  by (auto simp: desktopPath_def Let_def split: sum.splits promise.splits)

lemma desktopPath_fails_settles:
  assumes "rejects (resumeFirst p)"
  shows "fst (desktopPath p s) \<noteq> Hangs"
  using assms playDesktopTone_not_Hangs
  by (auto simp: desktopPath_def rejects_def Let_def split: sum.splits promise.splits)

lemma playAlertSound_all_fail:
  assumes "allTiersFail p"
  shows "fst (playAlertSound p s) = Returns () \<and> snd (snd (playAlertSound p s)) = []"
proof -
  from assms have t: "playTone p \<noteq> None" and r: "rejects (resumeFirst p)" and h: "html5Fails p"
    by (simp_all add: allTiersFail_def)
  have "fst (playAlertSound_try p s) \<noteq> Hangs"
    using mobilePath_fails [OF t r h, of s] desktopPath_fails_settles [OF r, of s]
    by (simp add: playAlertSound_try_def)
  then have "fst (playAlertSound p s) \<noteq> Hangs" by (simp add: playAlertSound_Hangs_iff)
  with playAlertSound_not_Throws [of p s] have 1: "fst (playAlertSound p s) = Returns ()"
    by (cases "fst (playAlertSound p s)") auto
  have "snd (snd (playAlertSound_try p s)) = []"
    using mobilePath_fails [OF t r h, of s] desktopPath_fails [OF t, of s]
    by (simp add: playAlertSound_try_def)
  with 1 show ?thesis by (simp add: playAlertSound_sounds)
qed

lemma activateAudioContext_not_Throws: "fst (activateAudioContext p s) \<noteq> Throws e"
  by (auto simp: activateAudioContext_def Let_def split: sum.splits promise.splits)

lemma activateAudioContext_settles:
  "awaitsSettle p \<Longrightarrow> fst (activateAudioContext p s) = Returns ()"
  by (auto simp: activateAudioContext_def awaitsSettle_def Let_def split: sum.splits promise.splits)

text \<open>
  Claim C3, as the code has it.  Whatever the platform does, the promise of
  \<^verbatim>\<open>playAlertSound\<close> is never rejected.  It resolves whenever the platform
  settles every promise that the function awaits (the two \<^verbatim>\<open>resume()\<close> and
  \<^verbatim>\<open>audio.play()\<close>), whether they resolve or reject; and when every tier fails
  it resolves with no playback started.
\<close>

theorem playAlertSound_never_throws:
  "(\<forall>e. fst (playAlertSound p s) \<noteq> Throws e)
   \<and> (awaitsSettle p \<longrightarrow> fst (playAlertSound p s) = Returns ())
   \<and> (allTiersFail p \<longrightarrow>
         fst (playAlertSound p s) = Returns () \<and> snd (snd (playAlertSound p s)) = [])"
  using playAlertSound_not_Throws [of p s] playAlertSound_settles [of p s]
    playAlertSound_all_fail [of p s]
  by blast

text \<open>
  The theorem on a platform where every call fails and on one where every call
  succeeds, on the desktop and the mobile branch.
\<close>

theorem playAlertSound_never_throws_witness:
  "allTiersFail (deadPlatform False) \<and> allTiersFail (deadPlatform True)
   \<and> awaitsSettle (workingPlatform False) \<and> awaitsSettle (workingPlatform True)
   \<and> playAlertSound (deadPlatform False) freshAudio = (Returns (), freshAudio, [])
   \<and> playAlertSound (deadPlatform True) freshAudio = (Returns (), freshAudio, [])
   \<and> fst (playAlertSound (workingPlatform False) freshAudio) = Returns ()
   \<and> snd (snd (playAlertSound (workingPlatform False) freshAudio))
       = [WebAudioAlert, ScheduledRepeat 600, ScheduledRepeat 1200]
   \<and> fst (playAlertSound (workingPlatform True) freshAudio) = Returns ()
   \<and> snd (snd (playAlertSound (workingPlatform True) freshAudio)) = [WebAudioBeep]"
proof -
  have a: "allTiersFail (deadPlatform False)" "allTiersFail (deadPlatform True)"
    by (simp_all add: allTiersFail_def deadPlatform_def html5Fails_def rejects_def)
  have w: "awaitsSettle (workingPlatform False)" "awaitsSettle (workingPlatform True)"
    by (simp_all add: awaitsSettle_def workingPlatform_def)
  have d1: "playAlertSound (deadPlatform False) freshAudio = (Returns (), freshAudio, [])"
    by (simp add: playAlertSound_def playAlertSound_try_def desktopPath_def ensureContext_def
        deadPlatform_def freshAudio_def)
  have d2: "playAlertSound (deadPlatform True) freshAudio = (Returns (), freshAudio, [])"
    by (simp add: playAlertSound_def playAlertSound_try_def mobilePath_def mobileWebAudio_def
        mobileFallback_def html5Audio_def ensureContext_def deadPlatform_def freshAudio_def)
  have s1: "snd (snd (playAlertSound (workingPlatform False) freshAudio))
       = [WebAudioAlert, ScheduledRepeat 600, ScheduledRepeat 1200]"
    by (simp add: playAlertSound_def playAlertSound_try_def desktopPath_def playDesktopTone_def
        ensureContext_def workingPlatform_def freshAudio_def)
  have s2: "snd (snd (playAlertSound (workingPlatform True) freshAudio)) = [WebAudioBeep]"
    by (simp add: playAlertSound_def playAlertSound_try_def mobilePath_def mobileWebAudio_def
        mobileTone_def ensureContext_def workingPlatform_def freshAudio_def)
  from playAlertSound_never_throws [of "workingPlatform False" freshAudio]
       playAlertSound_never_throws [of "workingPlatform True" freshAudio]
       playAlertSound_never_throws [of "deadPlatform False" freshAudio]
       a w d1 d2 s1 s2
  show ?thesis by simp
qed

text \<open>
  Claim C3 as stated fails: while the browser keeps \<^verbatim>\<open>resume()\<close> of a suspended
  context pending, the promise of \<^verbatim>\<open>playAlertSound\<close> stays pending and does not
  resolve, on either branch.
\<close>

theorem pending_resume_counterexample:
  "fst (playAlertSound (blockedPlatform False) freshAudio) = Hangs
   \<and> fst (playAlertSound (blockedPlatform True) freshAudio) = Hangs
   \<and> fst (playAlertSound (blockedPlatform False) freshAudio) \<noteq> Returns ()"
  by (simp add: playAlertSound_def playAlertSound_try_def desktopPath_def mobilePath_def
      mobileWebAudio_def ensureContext_def blockedPlatform_def freshAudio_def)

section \<open>Theorems: the poller\<close>

lemma fetchData_fails: "fetchFails cfg env \<Longrightarrow> \<exists>e. fetchData cfg env = Inl e"
  by (auto simp: fetchFails_def fetchData_def isl_def split: sum.splits)

lemma fetchEarthquakes_try_fails:
  "fetchFails cfg env \<Longrightarrow> \<exists>e. fetchEarthquakes_try cfg env st = Inl e"
  using fetchData_fails [of cfg env] by (auto simp: fetchEarthquakes_try_def)

lemma fetchEarthquakesFn_resolves: "\<exists>st'. fetchEarthquakesFn cfg env st = Inr st'"
  by (simp add: fetchEarthquakesFn_def Let_def split: sum.splits)

lemma pollLoop_resolves: "\<exists>st'. pollLoop cfg envs st = Inr st'"
proof (induction envs arbitrary: st)
  case Nil
  show ?case by simp
next
  case (Cons env envs)
  obtain st1 where "fetchEarthquakesFn cfg env st = Inr st1"
    using fetchEarthquakesFn_resolves by blast
  with Cons.IH [of st1] show ?case by simp
qed

text \<open>
  Claim C5.  When the fetch fails (transport error, non-2xx response or a body that does
  not parse), the call resolves, the earthquake list is the one before the call, the
  error is a string, the loading flag is cleared, and the interval goes on with the next
  tick.
\<close>

theorem failed_poll_keeps_results:
  assumes "fetchFails cfg env"
  shows "\<exists>st' msg. fetchEarthquakesFn cfg env st = Inr st'
           \<and> earthquakes st' = earthquakes st
           \<and> error st' = Some msg
           \<and> loading st' = False
           \<and> pollLoop cfg (env # envs) st = pollLoop cfg envs st'
           \<and> (\<exists>st''. pollLoop cfg (env # envs) st = Inr st'')"
proof -
  obtain e where "fetchEarthquakes_try cfg env (st\<lparr>loading := True, error := None\<rparr>) = Inl e"
    using fetchEarthquakes_try_fails [OF assms] by blast
  then have f: "fetchEarthquakesFn cfg env st
      = Inr (st\<lparr>loading := True, error := None, error := Some (errorMessage e), loading := False\<rparr>)"
    by (simp add: fetchEarthquakesFn_def Let_def)
  moreover obtain st'' where "pollLoop cfg (env # envs) st = Inr st''"
    using pollLoop_resolves by blast
  ultimately show ?thesis by simp
qed

text \<open>
  The theorem at the three failures in a row.
\<close>

theorem failed_poll_keeps_results_witness:
  "fetchFails liveConfig downEnv \<and> fetchFails liveConfig http503Env \<and> fetchFails liveConfig garbledEnv
   \<and> fetchEarthquakesFn liveConfig downEnv lastGood
       = Inr (lastGood\<lparr>error := Some ''Failed to fetch''\<rparr>)
   \<and> fetchEarthquakesFn liveConfig http503Env lastGood
       = Inr (lastGood\<lparr>error := Some ''API error: Service Unavailable''\<rparr>)
   \<and> fetchEarthquakesFn liveConfig garbledEnv lastGood
       = Inr (lastGood\<lparr>error := Some ''Unexpected token < in JSON''\<rparr>)
   \<and> pollLoop liveConfig [downEnv, http503Env, garbledEnv] lastGood
       = Inr (lastGood\<lparr>error := Some ''Unexpected token < in JSON''\<rparr>)"
proof -
  have a: "fetchFails liveConfig downEnv" "fetchFails liveConfig http503Env"
    "fetchFails liveConfig garbledEnv"
    by (simp_all add: fetchFails_def downEnv_def http503Env_def garbledEnv_def)
  have e: "fetchEarthquakesFn liveConfig downEnv st = Inr (st\<lparr>error := Some ''Failed to fetch'', loading := False\<rparr>)"
    "fetchEarthquakesFn liveConfig http503Env st = Inr (st\<lparr>error := Some ''API error: Service Unavailable'', loading := False\<rparr>)"
    "fetchEarthquakesFn liveConfig garbledEnv st = Inr (st\<lparr>error := Some ''Unexpected token < in JSON'', loading := False\<rparr>)"
    for st
    by (simp_all add: fetchEarthquakesFn_def fetchEarthquakes_try_def fetchData_def errorMessage_def
        downEnv_def http503Env_def garbledEnv_def Let_def)
  from failed_poll_keeps_results [OF a(1), of lastGood "[http503Env, garbledEnv]"] a e
  show ?thesis by (simp add: lastGood_def)
qed

section \<open>Theorems: the normaliser\<close>

lemma acceptsFeature_iff:
  "acceptsFeature fo \<longleftrightarrow>
     (\<exists>f pr g cs. fo = Val f \<and> f_properties f = Val pr \<and> f_geometry f = Val g
        \<and> coordinates g = Val cs)"
  by (auto simp: acceptsFeature_def split: js.splits)

lemma toEarthquake_accepted:
  "acceptsFeature fo \<Longrightarrow> \<exists>q. toEarthquake n now fo = Inr q"
  by (auto simp: acceptsFeature_iff toEarthquake_def)

lemma mapThrowing_total:
  "\<forall>x \<in> set xs. \<exists>y. g x = Inr y \<Longrightarrow> \<exists>ys. mapThrowing g xs = Inr ys \<and> map Inr ys = map g xs"
proof (induction xs)
  case Nil
  show ?case by simp
next
  case (Cons x xs)
  then obtain y where y: "g x = Inr y" by auto
  from Cons obtain ys where "mapThrowing g xs = Inr ys" "map Inr ys = map g xs" by auto
  with y show ?case by simp
qed

lemma normalizeBatch_total:
  "\<exists>qs. normalizeBatch n now fs = Inr qs
        \<and> map Inr qs = map (toEarthquake n now) (filter acceptsFeature fs)"
  unfolding normalizeBatch_def
  by (rule mapThrowing_total) (simp add: toEarthquake_accepted)

lemma rejected_lacks:
  "\<not> acceptsFeature (Val f) \<Longrightarrow> \<not> hasPropertiesBlock f \<or> \<not> hasCoordinatePair f"
  by (auto simp: acceptsFeature_def hasPropertiesBlock_def hasCoordinatePair_def split: js.splits)

lemma normalizeBatch_drop:
  "\<not> acceptsFeature fo \<Longrightarrow> normalizeBatch n now (fs @ fo # fs') = normalizeBatch n now (fs @ fs')"
  by (simp add: normalizeBatch_def)

lemma toEarthquake_defaults:
  "f_properties f = Val pr \<and> f_geometry f = Val g \<and> coordinates g = Val cs \<longrightarrow>
        (\<exists>q. toEarthquake n now (Val f) = Inr q
           \<and> (p_mag pr = Undefined \<or> p_mag pr = Null \<longrightarrow> magnitude q = 0)
           \<and> (p_place pr = Undefined \<or> p_place pr = Null \<longrightarrow> place q = ''Unknown'')
           \<and> (p_time pr = Undefined \<or> p_time pr = Null \<longrightarrow> time q = now)
           \<and> (f_id f = Undefined \<or> f_id f = Null \<or> f_id f = Val [] \<longrightarrow>
                 eq_id q = ''quake-'' @ showNum n (p_time pr) @ ''-'' @ showNum n (at_index cs 0)
                             @ ''-'' @ showNum n (at_index cs 1))
           \<and> latitude q = at_index cs 1 \<and> longitude q = at_index cs 0)"
  by (auto simp: toEarthquake_def orNum_def orStr_def syntheticId_def)

lemma showNum_cases:
  "showNum n Undefined = ''undefined''" "showNum n Null = ''null''" "showNum n (Val r) = n r"
  by (simp_all add: showNum_def)

text \<open>
  Claim C6, as the code has it.  A record is kept exactly when it is an object with a
  properties block, a geometry block and a coordinates array (of any length); a rejected
  record lacks a properties block or a coordinate pair.  The batch never throws, keeps
  the accepted records in order and is the same without a rejected record.  A kept
  record without magnitude, place or time gets 0, \<^verbatim>\<open>"Unknown"\<close> and the current
  time; one without identifier gets the template of its time and its first two
  coordinates, in which a missing value reads \<^verbatim>\<open>undefined\<close> and a null one
  \<^verbatim>\<open>null\<close>; latitude and longitude are the second and first coordinate.
\<close>

theorem normalizer_rejects_missing_blocks:
  "(acceptsFeature fo \<longleftrightarrow>
      (\<exists>f pr g cs. fo = Val f \<and> f_properties f = Val pr \<and> f_geometry f = Val g
         \<and> coordinates g = Val cs))
   \<and> (\<not> acceptsFeature (Val f) \<longrightarrow> \<not> hasPropertiesBlock f \<or> \<not> hasCoordinatePair f)
   \<and> (\<exists>qs. normalizeBatch n now fs = Inr qs
         \<and> map Inr qs = map (toEarthquake n now) (filter acceptsFeature fs))
   \<and> (\<not> acceptsFeature fo \<longrightarrow>
         normalizeBatch n now (fs @ fo # fs') = normalizeBatch n now (fs @ fs'))
   \<and> (f_properties f = Val pr \<and> f_geometry f = Val g \<and> coordinates g = Val cs \<longrightarrow>
        (\<exists>q. toEarthquake n now (Val f) = Inr q
           \<and> (p_mag pr = Undefined \<or> p_mag pr = Null \<longrightarrow> magnitude q = 0)
           \<and> (p_place pr = Undefined \<or> p_place pr = Null \<longrightarrow> place q = ''Unknown'')
           \<and> (p_time pr = Undefined \<or> p_time pr = Null \<longrightarrow> time q = now)
           \<and> (f_id f = Undefined \<or> f_id f = Null \<or> f_id f = Val [] \<longrightarrow>
                 eq_id q = ''quake-'' @ showNum n (p_time pr) @ ''-'' @ showNum n (at_index cs 0)
                             @ ''-'' @ showNum n (at_index cs 1))
           \<and> latitude q = at_index cs 1 \<and> longitude q = at_index cs 0))
   \<and> showNum n Undefined = ''undefined'' \<and> showNum n Null = ''null'' \<and> showNum n (Val r) = n r"
  using acceptsFeature_iff [of fo] rejected_lacks [of f] normalizeBatch_total [of n now fs]
    normalizeBatch_drop [of fo n now fs fs'] toEarthquake_defaults [of f pr g cs n now]
    showNum_cases(1,2) [of n] showNum_cases(3) [of n r]
  by blast

text \<open>
  The theorem at a batch of a complete record, one without geometry, and one without
  identifier whose time is null.
\<close>

theorem normalizer_rejects_missing_blocks_witness:
  "\<not> acceptsFeature (Val noGeometryFeature) \<and> \<not> acceptsFeature Null
   \<and> acceptsFeature (Val fullFeature) \<and> acceptsFeature (Val nullTimeFeature)
   \<and> normalizeBatch sampleNumToString 1700000000123
        [Val fullFeature, Val noGeometryFeature, Val nullTimeFeature]
       = normalizeBatch sampleNumToString 1700000000123 [Val fullFeature, Val nullTimeFeature]
   \<and> normalizeBatch sampleNumToString 1700000000123 [Val fullFeature, Val nullTimeFeature]
       = Inr [\<lparr>eq_id = ''us7000abcd'', magnitude = 5.1, place = ''10 km S of Eilat'',
               time = 1700000000000, depth = 12, latitude = Val 29.5, longitude = Val 34.9,
               url = ''https://example.org''\<rparr>,
              \<lparr>eq_id = ''quake-null-34.9-29.5'', magnitude = 0, place = ''Unknown'',
               time = 1700000000123, depth = 0, latitude = Val 29.5, longitude = Val 34.9,
               url = []\<rparr>]"
proof -
  have a: "\<not> acceptsFeature (Val noGeometryFeature)" "\<not> acceptsFeature Null"
    "acceptsFeature (Val fullFeature)" "acceptsFeature (Val nullTimeFeature)"
    by (simp_all add: acceptsFeature_def noGeometryFeature_def fullFeature_def nullTimeFeature_def)
  have flt: "filter acceptsFeature [Val fullFeature, Val nullTimeFeature]
      = [Val fullFeature, Val nullTimeFeature]"
    by (simp add: a)
  have b: "normalizeBatch sampleNumToString 1700000000123 [Val fullFeature, Val nullTimeFeature]
       = Inr [\<lparr>eq_id = ''us7000abcd'', magnitude = 5.1, place = ''10 km S of Eilat'',
               time = 1700000000000, depth = 12, latitude = Val 29.5, longitude = Val 34.9,
               url = ''https://example.org''\<rparr>,
              \<lparr>eq_id = ''quake-null-34.9-29.5'', magnitude = 0, place = ''Unknown'',
               time = 1700000000123, depth = 0, latitude = Val 29.5, longitude = Val 34.9,
               url = []\<rparr>]"
    unfolding normalizeBatch_def flt
    by (simp add: toEarthquake_def fullFeature_def nullTimeFeature_def
        orNum_def orStr_def at_index_def syntheticId_def showNum_def sampleNumToString_def)
  from normalizer_rejects_missing_blocks [of "Val noGeometryFeature" noGeometryFeature
      sampleNumToString 1700000000123 "[Val fullFeature]" "[Val nullTimeFeature]"] a
  have "normalizeBatch sampleNumToString 1700000000123
          [Val fullFeature, Val noGeometryFeature, Val nullTimeFeature]
       = normalizeBatch sampleNumToString 1700000000123 [Val fullFeature, Val nullTimeFeature]"
    by simp
  with a b show ?thesis by simp
qed

text \<open>
  Claim C6 as stated fails: a record whose coordinates array is empty has no coordinate
  pair and is kept, with undefined latitude and longitude.
\<close>

theorem empty_coordinates_counterexample:
  "\<not> hasCoordinatePair bareFeature
   \<and> acceptsFeature (Val bareFeature)
   \<and> normalizeBatch sampleNumToString 1700000000123 [Val bareFeature]
       = Inr [\<lparr>eq_id = ''quake-undefined-undefined-undefined'', magnitude = 0, place = ''Unknown'',
               time = 1700000000123, depth = 0, latitude = Undefined, longitude = Undefined,
               url = []\<rparr>]"
  by (simp add: hasCoordinatePair_def acceptsFeature_def bareFeature_def normalizeBatch_def
      toEarthquake_def orNum_def orStr_def at_index_def syntheticId_def showNum_def)

section \<open>Theorems: the region filter\<close>

lemma haversineA_sym: "haversineA lat0 lon0 lat lon = haversineA lat lon lat0 lon0"
proof -
  have 1: "(lat0 - lat) * pi / 180 / 2 = - ((lat - lat0) * pi / 180 / 2)" by (simp add: field_simps)
  have 2: "(lon0 - lon) * pi / 180 / 2 = - ((lon - lon0) * pi / 180 / 2)" by (simp add: field_simps)
  show ?thesis
    unfolding haversineA_def Let_def 1 2 sin_minus by (simp add: mult.commute)
qed

lemma distanceKm_sym: "distanceKm lat0 lon0 lat lon = distanceKm lat lon lat0 lon0"
  unfolding distanceKm_def haversineA_sym [of lat0 lon0 lat lon] ..

lemma distanceKm_same: "distanceKm lat lon lat lon = Some 0"
  by (simp add: distanceKm_def haversineA_def atan2_def)

lemma sin_half_sq: "sin (x / 2) * sin (x / 2) = hav x"
proof -
  have "cos x = 1 - 2 * (sin (x / 2))\<^sup>2"
    using cos_double_sin [of "x / 2"] by simp
  then show ?thesis by (simp add: hav_def power2_eq_square)
qed

lemma haversineA_hav:
  "haversineA lat0 lon0 lat lon
     = hav (radians lat - radians lat0) + cos (radians lat0) * cos (radians lat) * hav (radians lon - radians lon0)"
proof -
  have 1: "(lat - lat0) * pi / 180 = radians lat - radians lat0"
    by (simp add: radians_def algebra_simps diff_divide_distrib)
  have 2: "(lon - lon0) * pi / 180 = radians lon - radians lon0"
    by (simp add: radians_def algebra_simps diff_divide_distrib)
  have "haversineA lat0 lon0 lat lon
      = sin ((radians lat - radians lat0) / 2) * sin ((radians lat - radians lat0) / 2)
        + cos (radians lat0) * cos (radians lat)
          * (sin ((radians lon - radians lon0) / 2) * sin ((radians lon - radians lon0) / 2))"
    unfolding haversineA_def Let_def 1 2 by (simp add: radians_def mult.assoc)
  then show ?thesis by (simp add: sin_half_sq)
qed

lemma hav_bounds: "0 \<le> hav x" "hav x \<le> 1"
  using cos_le_one [of x] cos_ge_minus_one [of x] by (simp_all add: hav_def)

lemma cos_radians_nonneg: "validLatitude lat \<Longrightarrow> 0 \<le> cos (radians lat)"
proof -
  assume v: "validLatitude lat"
  have "(- 90) * pi \<le> lat * pi" "lat * pi \<le> 90 * pi"
    using v mult_right_mono [of "- 90" lat pi] mult_right_mono [of lat 90 pi]
    by (simp_all add: validLatitude_def)
  then have "- (pi / 2) \<le> radians lat" "radians lat \<le> pi / 2"
    by (simp_all add: radians_def)
  then show ?thesis by (rule cos_ge_zero)
qed

lemma haversineA_bounds:
  assumes "validLatitude lat0" "validLatitude lat"
  shows "0 \<le> haversineA lat0 lon0 lat lon" "haversineA lat0 lon0 lat lon \<le> 1"
proof -
  let ?c = "cos (radians lat0) * cos (radians lat)"
  let ?h = "hav (radians lon - radians lon0)"
  have c0: "0 \<le> ?c"
    using cos_radians_nonneg [OF assms(1)] cos_radians_nonneg [OF assms(2)] by simp
  have h: "0 \<le> ?h" "?h \<le> 1" by (rule hav_bounds)+
  from c0 h show "0 \<le> haversineA lat0 lon0 lat lon"
    using hav_bounds(1) [of "radians lat - radians lat0"] by (simp add: haversineA_hav)
  define cc where "cc = cos (radians lat0) * cos (radians lat)"
  define cd where "cd = cos (radians lat - radians lat0)"
  define cs where "cs = cos (radians lat + radians lat0)"
  define hh where "hh = cc * hav (radians lon - radians lon0)"
  have le: "hh \<le> cc" using mult_left_mono [OF h(2) c0] by (simp add: hh_def cc_def)
  have "cc = (cd + cs) / 2" by (simp add: cc_def cd_def cs_def cos_add cos_diff)
  moreover have "cs \<le> 1" by (simp add: cs_def)
  ultimately have "cc \<le> (cd + 1) / 2" by simp
  with le have "hh \<le> (cd + 1) / 2" by simp
  then have "(1 - cd) / 2 + hh \<le> 1" by (simp add: field_simps)
  then show "haversineA lat0 lon0 lat lon \<le> 1"
    by (simp add: haversineA_hav hav_def hh_def cc_def cd_def)
qed

lemma atan2_arcsin:
  assumes "0 \<le> a" "a \<le> 1"
  shows "atan2 (sqrt a) (sqrt (1 - a)) = arcsin (sqrt a)"
proof (cases "a = 1")
  case True
  then show ?thesis by (simp add: atan2_def)
next
  case False
  with assms have lt: "a < 1" by simp
  then have pos: "0 < sqrt (1 - a)" by simp
  have "sqrt a < 1" using lt assms(1) by (simp add: real_sqrt_lt_1_iff)
  moreover have "- 1 < sqrt a" using assms(1) by (smt (verit) real_sqrt_ge_zero)
  ultimately have "arcsin (sqrt a) = arctan (sqrt a / sqrt (1 - (sqrt a)\<^sup>2))"
    by (rule arcsin_arctan [rotated])
  also have "(sqrt a)\<^sup>2 = a" using assms(1) by simp
  finally show ?thesis using pos by (simp add: atan2_def)
qed

lemma distanceKm_haversine:
  assumes "validLatitude (fst c)" "validLatitude (fst p)"
  shows "distanceKm (fst c) (snd c) (fst p) (snd p) = Some (haversineDistance c p)"
proof -
  let ?a = "haversineA (fst c) (snd c) (fst p) (snd p)"
  have b: "0 \<le> ?a" "?a \<le> 1" using haversineA_bounds [OF assms] by simp_all
  have "atan2 (sqrt ?a) (sqrt (1 - ?a)) = arcsin (sqrt ?a)" using b by (rule atan2_arcsin)
  then have "distanceKm (fst c) (snd c) (fst p) (snd p) = Some (6371 * (2 * arcsin (sqrt ?a)))"
    using b by (simp add: distanceKm_def Let_def earthRadiusKm_def)
  then show ?thesis by (simp add: haversineDistance_def haversineA_hav)
qed

lemma haversine_meridian:
  assumes "validLatitude la0" "validLatitude la"
  shows "haversineDistance (la0, lo) (la, lo) = 6371 * (\<bar>la - la0\<bar> * pi / 180)"
proof -
  define d where "d = radians la - radians la0"
  have r0: "- (pi / 2) \<le> radians la0" "radians la0 \<le> pi / 2"
    using assms(1) mult_right_mono [of "- 90" la0 pi] mult_right_mono [of la0 90 pi]
    by (simp_all add: validLatitude_def radians_def)
  have r1: "- (pi / 2) \<le> radians la" "radians la \<le> pi / 2"
    using assms(2) mult_right_mono [of "- 90" la pi] mult_right_mono [of la 90 pi]
    by (simp_all add: validLatitude_def radians_def)
  have b: "\<bar>d / 2\<bar> \<le> pi / 2" using r0 r1 by (simp add: d_def abs_le_iff)
  have "hav d = sin (d / 2) * sin (d / 2)" by (simp add: sin_half_sq)
  then have "sqrt (hav d) = \<bar>sin (d / 2)\<bar>" by simp
  also have "\<dots> = sin \<bar>d / 2\<bar>"
  proof (cases "0 \<le> d / 2")
    case True
    have "d / 2 \<le> pi" using b pi_ge_zero by linarith
    with True have "0 \<le> sin (d / 2)" by (rule sin_ge_zero)
    with True show ?thesis by simp
  next
    case False
    then have n: "0 \<le> - (d / 2)" by simp
    have "- (d / 2) \<le> pi" using b pi_ge_zero by linarith
    with n have "0 \<le> sin (- (d / 2))" by (rule sin_ge_zero)
    then have "\<bar>sin (d / 2)\<bar> = sin (- (d / 2))" by simp
    with False show ?thesis by simp
  qed
  finally have "arcsin (sqrt (hav d)) = \<bar>d / 2\<bar>"
    using b by (simp add: arcsin_sin)
  moreover have "\<bar>d / 2\<bar> = \<bar>la - la0\<bar> * pi / 180 / 2"
  proof -
    have "d / 2 = (la - la0) * (pi / 360)" by (simp add: d_def radians_def field_simps)
    then have "\<bar>d / 2\<bar> = \<bar>la - la0\<bar> * \<bar>pi / 360\<bar>" by (simp only: abs_mult)
    then show ?thesis by simp
  qed
  ultimately have e: "arcsin (sqrt (hav d)) = \<bar>la - la0\<bar> * pi / 180 / 2" by simp
  have h0: "hav (radians lo - radians lo) = 0" by (simp add: hav_def)
  have "haversineDistance (la0, lo) (la, lo) = 2 * 6371 * arcsin (sqrt (hav d))"
    unfolding haversineDistance_def by (simp only: fst_conv snd_conv h0 d_def) simp
  then show ?thesis unfolding e by simp
qed

lemma withinRadius_valid:
  "validLatitude (fst c) \<Longrightarrow> validLatitude (fst p) \<Longrightarrow>
   withinRadius c p r \<longleftrightarrow> haversineDistance c p \<le> r"
  using distanceKm_haversine [of c p] by (simp add: withinRadius_def)

lemma regionFilter_numbers:
  assumes "latitude q = Val la" "longitude q = Val lo" "validLatitude la"
  shows "regionFilter m q \<longleftrightarrow> haversineDistance (31, 35) (la, lo) \<le> 1500 \<and> m \<le> magnitude q"
proof -
  have v: "validLatitude (fst (31 :: real, 35 :: real))" by (simp add: validLatitude_def)
  from withinRadius_valid [OF v, of "(la, lo)" 1500] assms show ?thesis
    by (simp add: regionFilter_def toNumber_def israelLat_def israelLon_def radiusKm_def)
qed

lemma regionFilter_undefined:
  "latitude q = Undefined \<or> longitude q = Undefined \<Longrightarrow> \<not> regionFilter m q"
  by (auto simp: regionFilter_def toNumber_def split: option.splits js.splits)

text \<open>
  Claim C7, on real numbers.  For latitudes between -90 and 90 the test is true exactly
  when the haversine distance with radius 6371 km is at most the given radius; distance
  and test are symmetric in the two points; the distance of a point to itself is 0, and
  the point is within every radius that is not negative.  The filter callback of the
  poller keeps an event with numeric coordinates exactly when its haversine distance
  from (31, 35) is at most 1500 km and its magnitude reaches the floor, and drops an
  event whose latitude or longitude is undefined.
\<close>

theorem withinRadius_haversine:
  "(validLatitude (fst c) \<and> validLatitude (fst p) \<longrightarrow>
      (withinRadius c p r \<longleftrightarrow> haversineDistance c p \<le> r))
   \<and> distanceKm (fst c) (snd c) (fst p) (snd p) = distanceKm (fst p) (snd p) (fst c) (snd c)
   \<and> withinRadius c p r = withinRadius p c r
   \<and> distanceKm (fst p) (snd p) (fst p) (snd p) = Some 0
   \<and> (0 \<le> r \<longrightarrow> withinRadius p p r)
   \<and> (latitude q = Val la \<and> longitude q = Val lo \<and> validLatitude la \<longrightarrow>
        (regionFilter m q \<longleftrightarrow>
           haversineDistance (31, 35) (la, lo) \<le> 1500 \<and> m \<le> magnitude q))
   \<and> (latitude q = Undefined \<or> longitude q = Undefined \<longrightarrow> \<not> regionFilter m q)"
proof -
  have 1: "validLatitude (fst c) \<and> validLatitude (fst p) \<longrightarrow>
      (withinRadius c p r \<longleftrightarrow> haversineDistance c p \<le> r)"
    using withinRadius_valid [of c p r] by blast
  have 2: "distanceKm (fst c) (snd c) (fst p) (snd p) = distanceKm (fst p) (snd p) (fst c) (snd c)"
    by (rule distanceKm_sym)
  have 3: "withinRadius c p r = withinRadius p c r"
    unfolding withinRadius_def 2 ..
  have 4: "distanceKm (fst p) (snd p) (fst p) (snd p) = Some 0" by (rule distanceKm_same)
  have 5: "0 \<le> r \<longrightarrow> withinRadius p p r" by (simp add: withinRadius_def 4)
  have 6: "latitude q = Val la \<and> longitude q = Val lo \<and> validLatitude la \<longrightarrow>
        (regionFilter m q \<longleftrightarrow>
           haversineDistance (31, 35) (la, lo) \<le> 1500 \<and> m \<le> magnitude q)"
    using regionFilter_numbers [of q la lo m] by blast
  have 7: "latitude q = Undefined \<or> longitude q = Undefined \<longrightarrow> \<not> regionFilter m q"
    using regionFilter_undefined [of q m] by blast
  from 1 2 3 4 5 6 7 show ?thesis by blast
qed

text \<open>
  The theorem at events one degree and thirty degrees north of the centre (about 111 km
  and 3336 km away), at the magnitude floor, and at an event without coordinates.
\<close>

theorem withinRadius_haversine_witness:
  "validLatitude 31 \<and> validLatitude 32 \<and> validLatitude 61
   \<and> haversineDistance (31, 35) (32, 35) \<le> 1500
   \<and> \<not> haversineDistance (31, 35) (61, 35) \<le> 1500
   \<and> withinRadius (31, 35) (32, 35) 1500
   \<and> \<not> withinRadius (31, 35) (61, 35) 1500
   \<and> withinRadius (31, 35) (31, 35) 1500
   \<and> regionFilter 0 (quakeAt (Val 32) (Val 35) 1)
   \<and> \<not> regionFilter 0 (quakeAt (Val 61) (Val 35) 1)
   \<and> \<not> regionFilter 0.1 (quakeAt (Val 32) (Val 35) 0)
   \<and> \<not> regionFilter 0 (quakeAt Undefined Undefined 1)"
proof -
  have v: "validLatitude 31" "validLatitude 32" "validLatitude 61"
    by (simp_all add: validLatitude_def)
  have near: "haversineDistance (31, 35) (32, 35) \<le> 1500"
  proof -
    have "haversineDistance (31, 35) (32, 35) = 6371 * (pi / 180)"
      using haversine_meridian [OF v(1) v(2), of 35] by simp
    moreover have "6371 * (pi / 180) \<le> 1500" using pi_less_4 by simp
    ultimately show ?thesis by simp
  qed
  have far: "\<not> haversineDistance (31, 35) (61, 35) \<le> 1500"
  proof -
    have "haversineDistance (31, 35) (61, 35) = 6371 * (30 * pi / 180)"
      using haversine_meridian [OF v(1) v(3), of 35] by simp
    moreover have "1500 < 6371 * (30 * pi / 180)" using pi_ge_two by simp
    ultimately show ?thesis by simp
  qed
  have q: "latitude (quakeAt la lo m) = la" "longitude (quakeAt la lo m) = lo"
    "magnitude (quakeAt la lo m) = m" for la lo m
    by (simp_all add: quakeAt_def sampleQuake_def)
  from withinRadius_haversine [of "(31, 35)" "(32, 35)" 1500 "quakeAt (Val 32) (Val 35) 1" 32 35 0]
       withinRadius_haversine [of "(31, 35)" "(61, 35)" 1500 "quakeAt (Val 61) (Val 35) 1" 61 35 0]
       withinRadius_haversine [of "(31, 35)" "(31, 35)" 1500 "quakeAt (Val 32) (Val 35) 0" 32 35 "0.1"]
       withinRadius_haversine [of "(31, 35)" "(31, 35)" 1500 "quakeAt Undefined Undefined 1" 0 0 0]
       v near far q
  show ?thesis by simp
qed

section \<open>Theorems: broadcasts\<close>

lemma mismatch_iff:
  "supabaseMismatch viewer n \<longleftrightarrow> \<not> tagAbsent n \<and> \<not> tagMatches viewer n"
  "firebaseMismatch viewer n \<longleftrightarrow> \<not> tagAbsent n \<and> \<not> tagMatches viewer n"
  by (auto simp: supabaseMismatch_def firebaseMismatch_def tagAbsent_def tagMatches_def truthyStr_def
      split: js.splits)

lemma showsNotification_simps:
  "showsNotification [] = False"
  "showsNotification [ActivateAudioContext] = False"
  "showsNotification [ActivateAudioContext, PlayAlertSound] = False"
  "showsNotification (ActivateAudioContext # PlayAlertSound # supabaseShow env n) = True"
  by (simp_all add: showsNotification_def supabaseShow_def)

lemma playsSound_simps:
  "playsSound [] = False"
  "playsSound [ActivateAudioContext] = False"
  "playsSound [ActivateAudioContext, PlayAlertSound] = True"
  "playsSound (ActivateAudioContext # PlayAlertSound # supabaseShow env n) = True"
  by (simp_all add: playsSound_def)

text \<open>The Supabase handler once the three gates have passed, by how the audio calls end.\<close>

lemma supabaseOnInsert_passed:
  assumes "\<not> supabaseMismatch viewer n" "notificationSupported env" "permission env = Granted"
  shows "supabaseOnInsert env viewer n =
           (if \<not> activationReturns env then [ActivateAudioContext]
            else if \<not> playbackReturns env then [ActivateAudioContext, PlayAlertSound]
            else [ActivateAudioContext, PlayAlertSound] @ supabaseShow env n)"
proof -
  obtain c s1 snds where a: "activateAudioContext (activation env) (audio env) = (c, s1, snds)"
    by (cases "activateAudioContext (activation env) (audio env)") auto
  obtain c2 s2 snds2 where b: "playAlertSound (playback env) s1 = (c2, s2, snds2)"
    by (cases "playAlertSound (playback env) s1") auto
  from a activateAudioContext_not_Throws [of "activation env" "audio env"]
  have nt: "\<And>e. c \<noteq> Throws e" by simp
  show ?thesis
  proof (cases c)
    case Hangs
    with a assms show ?thesis by (simp add: supabaseOnInsert_def activationReturns_def)
  next
    case (Throws e)
    with nt show ?thesis by blast
  next
    case (Returns u)
    with a b assms show ?thesis
      by (cases c2) (simp_all add: supabaseOnInsert_def activationReturns_def playbackReturns_def)
  qed
qed

lemma supabaseOnInsert_blocked:
  "supabaseMismatch viewer n \<or> \<not> notificationSupported env \<or> permission env \<noteq> Granted
   \<Longrightarrow> supabaseOnInsert env viewer n = []"
  by (auto simp: supabaseOnInsert_def)

lemma supabase_effects:
  assumes "notificationSupported env" "permission env = Granted"
  shows "showsNotification (supabaseOnInsert env viewer n)
           \<longleftrightarrow> \<not> supabaseMismatch viewer n \<and> activationReturns env \<and> playbackReturns env"
    and "playsSound (supabaseOnInsert env viewer n)
           \<longleftrightarrow> \<not> supabaseMismatch viewer n \<and> activationReturns env"
proof -
  show "showsNotification (supabaseOnInsert env viewer n)
           \<longleftrightarrow> \<not> supabaseMismatch viewer n \<and> activationReturns env \<and> playbackReturns env"
  proof (cases "supabaseMismatch viewer n")
    case True
    then show ?thesis by (simp add: supabaseOnInsert_blocked showsNotification_simps)
  next
    case False
    from supabaseOnInsert_passed [OF False assms] show ?thesis
      by (simp add: False showsNotification_simps)
  qed
  show "playsSound (supabaseOnInsert env viewer n)
           \<longleftrightarrow> \<not> supabaseMismatch viewer n \<and> activationReturns env"
  proof (cases "supabaseMismatch viewer n")
    case True
    then show ?thesis by (simp add: supabaseOnInsert_blocked playsSound_simps)
  next
    case False
    from supabaseOnInsert_passed [OF False assms] show ?thesis
      by (simp add: False playsSound_simps)
  qed
qed

lemma firebaseDeliver_effects:
  assumes "notificationSupported env" "permission env = Granted"
  shows "showsNotification (firebaseDeliver env viewer n) \<longleftrightarrow> \<not> firebaseMismatch viewer n"
    and "playsSound (firebaseDeliver env viewer n)
           \<longleftrightarrow> \<not> firebaseMismatch viewer n \<and> b_sound n \<noteq> Val False \<and> activationReturns env"
    and "firebaseMismatch viewer n \<Longrightarrow> firebaseDeliver env viewer n = []"
  using assms by (simp_all add: firebaseDeliver_def showsNotification_def playsSound_def)

lemma firebaseOnValue_last:
  "firebaseOnValue env viewer (Some (entries @ [(k, v)]))
     = (case v of None \<Rightarrow> [] | Some n \<Rightarrow> firebaseDeliver env viewer n)"
  by (simp add: firebaseOnValue_def nth_append)

lemma audio_calls_settle:
  "awaitsSettle (activation env) \<Longrightarrow> activationReturns env"
  "awaitsSettle (playback env) \<Longrightarrow> playbackReturns env"
  by (simp_all add: activationReturns_def playbackReturns_def activateAudioContext_settles
      playAlertSound_settles)

lemma supabase_notification_is_message:
  assumes "BroadcastNotification x \<in> set (supabaseOnInsert env viewer n)"
  shows "x = \<lparr>bn_title = b_title n, bn_body = b_body n,
              bn_tag = ''admin-notification-'' @ showStr (b_id n),
              bn_requireInteraction = True\<rparr>"
proof (cases "supabaseMismatch viewer n \<or> \<not> notificationSupported env \<or> permission env \<noteq> Granted")
  case True
  from supabaseOnInsert_blocked [OF True] assms show ?thesis by simp
next
  case False
  then have g: "\<not> supabaseMismatch viewer n" "notificationSupported env" "permission env = Granted"
    by simp_all
  from supabaseOnInsert_passed [OF g] assms show ?thesis
    by (auto simp: supabaseShow_def split: if_splits)
qed

lemma firebase_notification_is_message:
  assumes "BroadcastNotification x \<in> set (firebaseDeliver env viewer n)"
  shows "x = \<lparr>bn_title = Val (orStr (b_title n) ''Earthquake Monitor''),
              bn_body = Val (orStr (b_body n) []),
              bn_tag = ''earthquake-monitor-'' @ orStr (b_id n) (dateNowString env),
              bn_requireInteraction = False\<rparr>"
  using assms by (auto simp: firebaseDeliver_def split: if_splits)

text \<open>
  Claim C4, as the code has it.  With notifications supported and permitted, a broadcast
  (on the Firebase bridge: the record under the last key of the snapshot) is handed to
  the alert surface exactly when its language tag is absent or empty, is
  \<^verbatim>\<open>"all"\<close>, or is the viewer's language, and, on the Supabase bridge, the two
  awaited audio calls have returned.  The sound is played under the language condition
  once the activation has returned, on the Firebase bridge only when the sound flag of
  the record is not \<^verbatim>\<open>false\<close>.  A record with another tag causes no call at
  all.  A notification that is raised carries the title and body of the message (on the
  Firebase bridge with their defaults).  The audio calls return when the platform
  settles the promises they await.
\<close>

theorem broadcast_language_gate:
  assumes "notificationSupported env" and "permission env = Granted"
  shows "(showsNotification (supabaseOnInsert env viewer n)
            \<longleftrightarrow> (tagAbsent n \<or> tagMatches viewer n) \<and> activationReturns env \<and> playbackReturns env)
       \<and> (playsSound (supabaseOnInsert env viewer n)
            \<longleftrightarrow> (tagAbsent n \<or> tagMatches viewer n) \<and> activationReturns env)
       \<and> (showsNotification (firebaseOnValue env viewer (Some (entries @ [(k, Some n)])))
            \<longleftrightarrow> tagAbsent n \<or> tagMatches viewer n)
       \<and> (playsSound (firebaseOnValue env viewer (Some (entries @ [(k, Some n)])))
            \<longleftrightarrow> (tagAbsent n \<or> tagMatches viewer n) \<and> b_sound n \<noteq> Val False
                \<and> activationReturns env)
       \<and> (\<not> tagAbsent n \<and> \<not> tagMatches viewer n \<longrightarrow>
             supabaseOnInsert env viewer n = []
           \<and> firebaseOnValue env viewer (Some (entries @ [(k, Some n)])) = [])
       \<and> (\<forall>x. BroadcastNotification x \<in> set (supabaseOnInsert env viewer n) \<longrightarrow>
             x = \<lparr>bn_title = b_title n, bn_body = b_body n,
                    bn_tag = ''admin-notification-'' @ showStr (b_id n),
                    bn_requireInteraction = True\<rparr>)
       \<and> (\<forall>x. BroadcastNotification x
               \<in> set (firebaseOnValue env viewer (Some (entries @ [(k, Some n)]))) \<longrightarrow>
             x = \<lparr>bn_title = Val (orStr (b_title n) ''Earthquake Monitor''),
                    bn_body = Val (orStr (b_body n) []),
                    bn_tag = ''earthquake-monitor-'' @ orStr (b_id n) (dateNowString env),
                    bn_requireInteraction = False\<rparr>)
       \<and> (awaitsSettle (activation env) \<longrightarrow> activationReturns env)
       \<and> (awaitsSettle (playback env) \<longrightarrow> playbackReturns env)"
proof -
  have a: "(showsNotification (supabaseOnInsert env viewer n)
            \<longleftrightarrow> (tagAbsent n \<or> tagMatches viewer n) \<and> activationReturns env \<and> playbackReturns env)
       \<and> (playsSound (supabaseOnInsert env viewer n)
            \<longleftrightarrow> (tagAbsent n \<or> tagMatches viewer n) \<and> activationReturns env)
       \<and> (showsNotification (firebaseOnValue env viewer (Some (entries @ [(k, Some n)])))
            \<longleftrightarrow> tagAbsent n \<or> tagMatches viewer n)
       \<and> (playsSound (firebaseOnValue env viewer (Some (entries @ [(k, Some n)])))
            \<longleftrightarrow> (tagAbsent n \<or> tagMatches viewer n) \<and> b_sound n \<noteq> Val False
                \<and> activationReturns env)
       \<and> (\<not> tagAbsent n \<and> \<not> tagMatches viewer n \<longrightarrow>
             supabaseOnInsert env viewer n = []
           \<and> firebaseOnValue env viewer (Some (entries @ [(k, Some n)])) = [])
       \<and> (awaitsSettle (activation env) \<longrightarrow> activationReturns env)
       \<and> (awaitsSettle (playback env) \<longrightarrow> playbackReturns env)"
    using supabase_effects [OF assms, of viewer n] firebaseDeliver_effects [OF assms, of viewer n]
      supabaseOnInsert_blocked [of viewer n env] audio_calls_settle [of env]
    by (auto simp: mismatch_iff firebaseOnValue_last)
  have b: "\<forall>x. BroadcastNotification x \<in> set (supabaseOnInsert env viewer n) \<longrightarrow>
             x = \<lparr>bn_title = b_title n, bn_body = b_body n,
                    bn_tag = ''admin-notification-'' @ showStr (b_id n),
                    bn_requireInteraction = True\<rparr>"
    using supabase_notification_is_message [of _ env viewer n] by blast
  have c: "\<forall>x. BroadcastNotification x
               \<in> set (firebaseOnValue env viewer (Some (entries @ [(k, Some n)]))) \<longrightarrow>
             x = \<lparr>bn_title = Val (orStr (b_title n) ''Earthquake Monitor''),
                    bn_body = Val (orStr (b_body n) []),
                    bn_tag = ''earthquake-monitor-'' @ orStr (b_id n) (dateNowString env),
                    bn_requireInteraction = False\<rparr>"
    using firebase_notification_is_message [of _ env viewer n] by (simp add: firebaseOnValue_last)
  from a b c show ?thesis by blast
qed

lemma grantedBrowser_audio:
  "activationReturns grantedBrowser" "playbackReturns grantedBrowser"
  by (simp_all add: activationReturns_def playbackReturns_def grantedBrowser_def
      activateAudioContext_def playAlertSound_def playAlertSound_try_def desktopPath_def
      playDesktopTone_def ensureContext_def workingPlatform_def freshAudio_def)

lemma blockedBrowser_audio: "\<not> activationReturns blockedBrowser"
  by (simp add: activationReturns_def blockedBrowser_def grantedBrowser_def
      activateAudioContext_def ensureContext_def blockedPlatform_def freshAudio_def)

lemma browser_gates:
  "notificationSupported grantedBrowser" "permission grantedBrowser = Granted"
  "notificationSupported blockedBrowser" "permission blockedBrowser = Granted"
  by (simp_all add: grantedBrowser_def blockedBrowser_def)

text \<open>
  The theorem at a Russian broadcast for an English viewer, at broadcasts tagged
  \<^verbatim>\<open>"all"\<close> and \<^verbatim>\<open>"en"\<close>, and in a browser that keeps the audio context
  suspended.
\<close>

theorem broadcast_language_gate_witness:
  "notificationSupported grantedBrowser \<and> permission grantedBrowser = Granted
   \<and> activationReturns grantedBrowser \<and> playbackReturns grantedBrowser
   \<and> \<not> activationReturns blockedBrowser
   \<and> supabaseOnInsert grantedBrowser En (broadcastIn (Val ''ru'')) = []
   \<and> firebaseOnValue grantedBrowser En (Some [(''k1'', Some (broadcastIn (Val ''ru'')))]) = []
   \<and> showsNotification (supabaseOnInsert grantedBrowser En (broadcastIn (Val ''all'')))
   \<and> playsSound (supabaseOnInsert grantedBrowser En (broadcastIn (Val ''all'')))
   \<and> showsNotification (firebaseOnValue grantedBrowser En (Some [(''k1'', Some (broadcastIn (Val ''en'')))]))
   \<and> playsSound (firebaseOnValue grantedBrowser En (Some [(''k1'', Some (broadcastIn (Val ''en'')))]))
   \<and> \<not> showsNotification (supabaseOnInsert blockedBrowser En (broadcastIn (Val ''all'')))
   \<and> \<not> playsSound (supabaseOnInsert blockedBrowser En (broadcastIn (Val ''all'')))
   \<and> showsNotification (firebaseOnValue blockedBrowser En (Some [(''k1'', Some (broadcastIn (Val ''en'')))]))
   \<and> \<not> playsSound (firebaseOnValue blockedBrowser En (Some [(''k1'', Some (broadcastIn (Val ''en'')))]))"
proof -
  have t: "\<not> tagAbsent (broadcastIn (Val ''ru''))" "\<not> tagMatches En (broadcastIn (Val ''ru''))"
    "tagMatches En (broadcastIn (Val ''all''))" "tagMatches En (broadcastIn (Val ''en''))"
    "b_sound (broadcastIn (Val ''en'')) \<noteq> Val False"
    by (simp_all add: tagAbsent_def tagMatches_def broadcastIn_def)
  from broadcast_language_gate [OF browser_gates(1,2), of En "broadcastIn (Val ''ru'')" "[]" "''k1''"]
       broadcast_language_gate [OF browser_gates(1,2), of En "broadcastIn (Val ''all'')" "[]" "''k1''"]
       broadcast_language_gate [OF browser_gates(1,2), of En "broadcastIn (Val ''en'')" "[]" "''k1''"]
       broadcast_language_gate [OF browser_gates(3,4), of En "broadcastIn (Val ''all'')" "[]" "''k1''"]
       broadcast_language_gate [OF browser_gates(3,4), of En "broadcastIn (Val ''en'')" "[]" "''k1''"]
       browser_gates grantedBrowser_audio blockedBrowser_audio t
  show ?thesis by simp
qed

text \<open>
  Claim C4 as stated fails: a broadcast without a language tag is shown and played
  although its tag is neither \<^verbatim>\<open>"all"\<close> nor the viewer's language; on the
  Firebase bridge a broadcast tagged \<^verbatim>\<open>"all"\<close> whose sound flag is false is shown
  without the sound; and while the browser keeps the audio context suspended a broadcast
  tagged \<^verbatim>\<open>"all"\<close> is not shown on the Supabase bridge and not played on the
  Firebase bridge.
\<close>

theorem untagged_broadcast_counterexample:
  "notificationSupported grantedBrowser \<and> permission grantedBrowser = Granted
   \<and> b_language (broadcastIn Undefined) \<noteq> Val ''all''
   \<and> b_language (broadcastIn Undefined) \<noteq> Val (lang_code En)
   \<and> showsNotification (supabaseOnInsert grantedBrowser En (broadcastIn Undefined))
   \<and> playsSound (supabaseOnInsert grantedBrowser En (broadcastIn Undefined))
   \<and> showsNotification (firebaseOnValue grantedBrowser En (Some [(''k1'', Some (broadcastIn Undefined))]))
   \<and> playsSound (firebaseOnValue grantedBrowser En (Some [(''k1'', Some (broadcastIn Undefined))]))
   \<and> showsNotification (firebaseOnValue grantedBrowser En
         (Some [(''k1'', Some ((broadcastIn (Val ''all''))\<lparr>b_sound := Val False\<rparr>))]))
   \<and> \<not> playsSound (firebaseOnValue grantedBrowser En
         (Some [(''k1'', Some ((broadcastIn (Val ''all''))\<lparr>b_sound := Val False\<rparr>))]))
   \<and> b_language (broadcastIn (Val ''all'')) = Val ''all''
   \<and> \<not> showsNotification (supabaseOnInsert blockedBrowser En (broadcastIn (Val ''all'')))
   \<and> \<not> playsSound (firebaseOnValue blockedBrowser En (Some [(''k1'', Some (broadcastIn (Val ''all'')))]))"
proof -
  have m: "\<not> supabaseMismatch En (broadcastIn Undefined)"
    "\<not> firebaseMismatch En (broadcastIn Undefined)"
    "\<not> supabaseMismatch En (broadcastIn (Val ''all''))"
    "\<not> firebaseMismatch En (broadcastIn (Val ''all''))"
    "\<not> firebaseMismatch En ((broadcastIn (Val ''all''))\<lparr>b_sound := Val False\<rparr>)"
    by (simp_all add: supabaseMismatch_def firebaseMismatch_def truthyStr_def broadcastIn_def)
  have s: "b_sound (broadcastIn x) \<noteq> Val False"
    "b_sound ((broadcastIn x)\<lparr>b_sound := Val False\<rparr>) = Val False"
    "b_language (broadcastIn x) = x" for x
    by (simp_all add: broadcastIn_def)
  show ?thesis
    using m s browser_gates grantedBrowser_audio blockedBrowser_audio
    by (simp add: supabase_effects firebaseDeliver_effects firebaseOnValue_def)
qed

lemma supabaseOnInsert_viewer:
  "tagAbsent n \<Longrightarrow> supabaseOnInsert env viewer n = supabaseOnInsert env viewer' n"
  by (simp add: supabaseOnInsert_def mismatch_iff)

lemma firebaseDeliver_viewer:
  "tagAbsent n \<Longrightarrow> firebaseDeliver env viewer n = firebaseDeliver env viewer' n"
  by (simp add: firebaseDeliver_def mismatch_iff)

lemma supabase_delivers:
  assumes "\<not> supabaseMismatch viewer n" "notificationSupported env" "permission env = Granted"
    "activationReturns env" "playbackReturns env"
  shows "BroadcastNotification
           \<lparr>bn_title = b_title n, bn_body = b_body n,
            bn_tag = ''admin-notification-'' @ showStr (b_id n),
            bn_requireInteraction = True\<rparr> \<in> set (supabaseOnInsert env viewer n)"
  using supabaseOnInsert_passed [OF assms(1,2,3)] assms(4,5)
  by (simp add: supabaseShow_def)

lemma firebase_delivers:
  assumes "\<not> firebaseMismatch viewer n" "notificationSupported env" "permission env = Granted"
  shows "BroadcastNotification
           \<lparr>bn_title = Val (orStr (b_title n) ''Earthquake Monitor''),
            bn_body = Val (orStr (b_body n) []),
            bn_tag = ''earthquake-monitor-'' @ orStr (b_id n) (dateNowString env),
            bn_requireInteraction = False\<rparr> \<in> set (firebaseDeliver env viewer n)"
  using assms by (simp add: firebaseDeliver_def)

text \<open>
  Claim C9, as the code has it.  A broadcast whose language field is undefined, null or
  empty is never dropped by the language filter: both handlers do for it the same
  whatever the viewer's language is.  It is delivered, with its own title and body, when
  the other gates pass: notifications supported and permitted, on the Supabase bridge
  the two awaited audio calls returned, on the Firebase bridge the record stored under
  the last key of the snapshot.
\<close>

theorem untagged_broadcast_delivered:
  assumes "tagAbsent n"
  shows "supabaseOnInsert env viewer n = supabaseOnInsert env viewer' n
       \<and> firebaseOnValue env viewer (Some (entries @ [(k, Some n)]))
           = firebaseOnValue env viewer' (Some (entries @ [(k, Some n)]))
       \<and> (notificationSupported env \<and> permission env = Granted
            \<and> activationReturns env \<and> playbackReturns env \<longrightarrow>
          BroadcastNotification
            \<lparr>bn_title = b_title n, bn_body = b_body n,
             bn_tag = ''admin-notification-'' @ showStr (b_id n),
             bn_requireInteraction = True\<rparr> \<in> set (supabaseOnInsert env viewer n))
       \<and> (notificationSupported env \<and> permission env = Granted \<longrightarrow>
          BroadcastNotification
            \<lparr>bn_title = Val (orStr (b_title n) ''Earthquake Monitor''),
             bn_body = Val (orStr (b_body n) []),
             bn_tag = ''earthquake-monitor-'' @ orStr (b_id n) (dateNowString env),
             bn_requireInteraction = False\<rparr>
            \<in> set (firebaseOnValue env viewer (Some (entries @ [(k, Some n)]))))
       \<and> (awaitsSettle (activation env) \<longrightarrow> activationReturns env)
       \<and> (awaitsSettle (playback env) \<longrightarrow> playbackReturns env)"
proof -
  from assms have m: "\<not> supabaseMismatch viewer n" "\<not> firebaseMismatch viewer n"
    by (simp_all add: mismatch_iff)
  show ?thesis
    using supabaseOnInsert_viewer [OF assms, of env viewer viewer']
      firebaseDeliver_viewer [OF assms, of env viewer viewer']
      supabase_delivers [OF m(1), of env] firebase_delivers [OF m(2), of env]
      audio_calls_settle [of env]
    by (simp add: firebaseOnValue_last)
qed

text \<open>
  The theorem at broadcasts whose tag is undefined, null and empty.
\<close>

theorem untagged_broadcast_delivered_witness:
  "tagAbsent (broadcastIn Undefined) \<and> tagAbsent (broadcastIn Null) \<and> tagAbsent (broadcastIn (Val []))
   \<and> notificationSupported grantedBrowser \<and> permission grantedBrowser = Granted
   \<and> activationReturns grantedBrowser \<and> playbackReturns grantedBrowser
   \<and> supabaseOnInsert grantedBrowser En (broadcastIn Null)
       = supabaseOnInsert grantedBrowser Ru (broadcastIn Null)
   \<and> BroadcastNotification
        \<lparr>bn_title = Val ''Drill'', bn_body = Val ''This is a drill'',
         bn_tag = ''admin-notification-n1'', bn_requireInteraction = True\<rparr>
       \<in> set (supabaseOnInsert grantedBrowser Ru (broadcastIn Undefined))
   \<and> BroadcastNotification
        \<lparr>bn_title = Val ''Drill'', bn_body = Val ''This is a drill'',
         bn_tag = ''earthquake-monitor-n1'', bn_requireInteraction = False\<rparr>
       \<in> set (firebaseOnValue grantedBrowser Ru (Some [(''k1'', Some (broadcastIn (Val [])))]))"
proof -
  have a: "tagAbsent (broadcastIn Undefined)" "tagAbsent (broadcastIn Null)"
    "tagAbsent (broadcastIn (Val []))"
    by (simp_all add: tagAbsent_def broadcastIn_def)
  have f: "b_title (broadcastIn x) = Val ''Drill''" "b_body (broadcastIn x) = Val ''This is a drill''"
    "b_id (broadcastIn x) = Val ''n1''" for x
    by (simp_all add: broadcastIn_def)
  note t1 = untagged_broadcast_delivered [OF a(2), of grantedBrowser En Ru "[]" "''k1''"]
  note t2 = untagged_broadcast_delivered [OF a(1), of grantedBrowser Ru En "[]" "''k1''"]
  note t3 = untagged_broadcast_delivered [OF a(3), of grantedBrowser Ru En "[]" "''k1''"]
  have e1: "supabaseOnInsert grantedBrowser En (broadcastIn Null)
       = supabaseOnInsert grantedBrowser Ru (broadcastIn Null)"
    using t1 by blast
  have e2: "BroadcastNotification
        \<lparr>bn_title = Val ''Drill'', bn_body = Val ''This is a drill'',
         bn_tag = ''admin-notification-n1'', bn_requireInteraction = True\<rparr>
       \<in> set (supabaseOnInsert grantedBrowser Ru (broadcastIn Undefined))"
    using t2 [THEN conjunct2, THEN conjunct2, THEN conjunct1] browser_gates(1,2)
      grantedBrowser_audio
    by (simp add: f showStr_def)
  have e3: "BroadcastNotification
        \<lparr>bn_title = Val ''Drill'', bn_body = Val ''This is a drill'',
         bn_tag = ''earthquake-monitor-n1'', bn_requireInteraction = False\<rparr>
       \<in> set (firebaseOnValue grantedBrowser Ru (Some [(''k1'', Some (broadcastIn (Val [])))]))"
    using t3 [THEN conjunct2, THEN conjunct2, THEN conjunct2, THEN conjunct1] browser_gates(1,2)
    by (simp add: f orStr_def)
  from a browser_gates(1,2) grantedBrowser_audio e1 e2 e3 show ?thesis by blast
qed

text \<open>
  Claim C9 as stated fails: a broadcast without a language tag is not delivered to a
  viewer who has not granted the permission, nor on the Supabase bridge while the browser
  keeps the audio context suspended, nor on the Firebase bridge when another record is
  under the last key.
\<close>

theorem untagged_not_delivered_counterexample:
  "tagAbsent (broadcastIn Undefined)
   \<and> supabaseOnInsert (grantedBrowser\<lparr>permission := Denied\<rparr>) En (broadcastIn Undefined) = []
   \<and> firebaseOnValue (grantedBrowser\<lparr>permission := Default\<rparr>) En
        (Some [(''k1'', Some (broadcastIn Undefined))]) = []
   \<and> \<not> showsNotification (supabaseOnInsert blockedBrowser En (broadcastIn Undefined))
   \<and> firebaseOnValue grantedBrowser En
        (Some [(''k1'', Some (broadcastIn Undefined)), (''k2'', Some (broadcastIn (Val ''ru'')))]) = []"
proof -
  have a: "tagAbsent (broadcastIn Undefined)" by (simp add: tagAbsent_def broadcastIn_def)
  have 1: "supabaseOnInsert (grantedBrowser\<lparr>permission := Denied\<rparr>) En (broadcastIn Undefined) = []"
    by (simp add: supabaseOnInsert_def)
  have 2: "firebaseOnValue (grantedBrowser\<lparr>permission := Default\<rparr>) En
        (Some [(''k1'', Some (broadcastIn Undefined))]) = []"
    by (simp add: firebaseOnValue_def firebaseDeliver_def)
  have 3: "\<not> showsNotification (supabaseOnInsert blockedBrowser En (broadcastIn Undefined))"
    using blockedBrowser_audio by (simp add: supabase_effects browser_gates)
  have "firebaseMismatch En (broadcastIn (Val ''ru''))"
    by (simp add: firebaseMismatch_def truthyStr_def broadcastIn_def)
  then have 4: "firebaseOnValue grantedBrowser En
        (Some [(''k1'', Some (broadcastIn Undefined)), (''k2'', Some (broadcastIn (Val ''ru'')))]) = []"
    by (simp add: firebaseOnValue_def firebaseDeliver_def)
  from a 1 2 3 4 show ?thesis by blast
qed

lemma firebaseDeliver_at_most_one:
  "length (filter isBroadcastNotification (firebaseDeliver env viewer n)) \<le> 1"
  by (simp add: firebaseDeliver_def)

text \<open>
  Claim C10.  The Firebase handler does for a snapshot what it does for the snapshot
  that holds only the last entry, whatever the other entries are, and it raises at most
  one notification for a snapshot.
\<close>

theorem firebase_only_last_record:
  "firebaseOnValue env viewer (Some (entries @ [e])) = firebaseOnValue env viewer (Some [e])
   \<and> firebaseOnValue env viewer (Some (entries @ [e])) = firebaseOnValue env viewer (Some (others @ [e]))
   \<and> length (filter isBroadcastNotification (firebaseOnValue env viewer snapshot)) \<le> 1"
proof -
  obtain k v where e: "e = (k, v)" by (cases e)
  have 1: "firebaseOnValue env viewer (Some (xs @ [e])) = firebaseOnValue env viewer (Some [e])" for xs
    using firebaseOnValue_last [of env viewer xs k v] firebaseOnValue_last [of env viewer "[]" k v]
    by (simp add: e)
  have 3: "length (filter isBroadcastNotification (firebaseOnValue env viewer snapshot)) \<le> 1"
    using firebaseDeliver_at_most_one
    by (auto simp: firebaseOnValue_def split: option.splits)
  from 1 [of entries] 1 [of others] 3 show ?thesis by simp
qed

text \<open>
  The theorem at snapshots of three broadcasts: only the last one decides.
\<close>

theorem firebase_only_last_record_witness:
  "firebaseOnValue grantedBrowser En
     (Some [(''k1'', Some (broadcastIn (Val ''en''))), (''k2'', Some (broadcastIn (Val ''all''))),
            (''k3'', Some (broadcastIn (Val ''ru'')))]) = []
   \<and> length (filter isBroadcastNotification (firebaseOnValue grantedBrowser En
        (Some [(''k1'', Some (broadcastIn (Val ''ru''))), (''k2'', Some (broadcastIn (Val ''en''))),
               (''k3'', Some (broadcastIn (Val ''all'')))]))) = 1"
proof -
  have "firebaseOnValue grantedBrowser En (Some [(''k3'', Some (broadcastIn (Val ''ru'')))]) = []"
    by (simp add: firebaseOnValue_def firebaseDeliver_def firebaseMismatch_def truthyStr_def
        broadcastIn_def)
  moreover have "length (filter isBroadcastNotification (firebaseOnValue grantedBrowser En
      (Some [(''k3'', Some (broadcastIn (Val ''all'')))]))) = 1"
    by (simp add: firebaseOnValue_def firebaseDeliver_def firebaseMismatch_def truthyStr_def
        broadcastIn_def grantedBrowser_def)
  ultimately show ?thesis
    using firebase_only_last_record [of grantedBrowser En
        "[(''k1'', Some (broadcastIn (Val ''en''))), (''k2'', Some (broadcastIn (Val ''all'')))]"
        "(''k3'', Some (broadcastIn (Val ''ru'')))" "[]" None]
      firebase_only_last_record [of grantedBrowser En
        "[(''k1'', Some (broadcastIn (Val ''ru''))), (''k2'', Some (broadcastIn (Val ''en'')))]"
        "(''k3'', Some (broadcastIn (Val ''all'')))" "[]" None]
    by simp
qed

section \<open>Theorems: the subscription guard\<close>

text \<open>
  Claim C8, as the code has it.  While a subscription is held a pass of the subscribing
  effect changes nothing, and after the channel reports \<^verbatim>\<open>CLOSED\<close> the guard is
  reset, so that the next pass creates a channel.
\<close>

theorem subscription_guard:
  "(subscriptionRef st \<noteq> None \<longrightarrow> subscribeEffect enabled configured st = st)
   \<and> subscriptionRef (onStatus CLOSED st) = None
   \<and> subscriptionRef (subscribeEffect True True (onStatus CLOSED st)) = Some (channelsCreated st)
   \<and> channelsCreated (subscribeEffect True True (onStatus CLOSED st)) = Suc (channelsCreated st)"
  by (simp add: subscribeEffect_def onStatus_def)

text \<open>
  The theorem at a bridge that has subscribed once.
\<close>

theorem subscription_guard_witness:
  "subscriptionRef activeBridge \<noteq> None
   \<and> subscribeEffect True True activeBridge = activeBridge
   \<and> channelsCreated (subscribeEffect True True activeBridge) = 1
   \<and> subscriptionRef (onStatus CLOSED activeBridge) = None
   \<and> channelsCreated (subscribeEffect True True (onStatus CLOSED activeBridge)) = 2"
proof -
  have a: "activeBridge = \<lparr>subscriptionRef = Some 0, channelsCreated = 1\<rparr>"
    by (simp add: activeBridge_def subscribeEffect_def)
  from subscription_guard [of activeBridge True True] show ?thesis by (simp add: a)
qed

text \<open>
  Claim C8 as stated fails: after \<^verbatim>\<open>TIMED_OUT\<close> the guard is still set, and the
  next pass creates no channel.
\<close>

theorem timeout_keeps_guard_counterexample:
  "subscriptionRef (onStatus TIMED_OUT activeBridge) \<noteq> None
   \<and> subscribeEffect True True (onStatus TIMED_OUT activeBridge) = onStatus TIMED_OUT activeBridge
   \<and> channelsCreated (subscribeEffect True True (onStatus TIMED_OUT activeBridge)) = 1"
  by (simp add: activeBridge_def subscribeEffect_def onStatus_def)

end
